theory Spec2Isabelle
  imports Complex_Main
begin

section \<open>Python values\<close>

text \<open>
  The plugin (\<^verbatim>\<open>src/plugin.py\<close>) handles values decoded from JSON: command frames,
  the configuration file and the answers of the image services. A float is a rational
  (every finite double is one), an infinity or a NaN, as \<^verbatim>\<open>json.loads\<close> accepts them.
  A dict is an association list in insertion order; lookups take the first entry of a key.
\<close>

datatype pyfloat = Fin rat | PosInf | NegInf | NaN

datatype json =
    JNull
  | JBool bool
  | JInt int
  | JFloat pyfloat
  | JStr string
  | JArr "json list"
  | JObj "(string \<times> json) list"

text \<open>The exceptions that the modelled code raises, catches or lets escape.\<close>

datatype exn =
    TypeError
  | KeyError
  | IndexError
  | ZeroDivisionError
  | AttributeError
  | ValueError
  | OverflowError
  | OSError
  | PermissionError
  | UnicodeDecodeError
  | JSONDecodeError
  | WebSocketException
  | ConnectionError
  | Timeout
  | HTTPError

definition bindE :: "exn + 'a \<Rightarrow> ('a \<Rightarrow> exn + 'b) \<Rightarrow> exn + 'b" where
  "bindE m f = (case m of Inl e \<Rightarrow> Inl e | Inr x \<Rightarrow> f x)"

text \<open>Truth value of an object, as \<^verbatim>\<open>if x\<close> and \<^verbatim>\<open>not x\<close> test it.\<close>

fun py_truthy :: "json \<Rightarrow> bool" where
  "py_truthy JNull = False"
| "py_truthy (JBool b) = b"
| "py_truthy (JInt i) = (i \<noteq> 0)"
| "py_truthy (JFloat f) = (f \<noteq> Fin 0)"
| "py_truthy (JStr s) = (s \<noteq> [])"
| "py_truthy (JArr xs) = (xs \<noteq> [])"
| "py_truthy (JObj kvs) = (kvs \<noteq> [])"

text \<open>Numeric value of a bool, an int or a float; \<^verbatim>\<open>==\<close> compares numbers by value.\<close>

fun num_of :: "json \<Rightarrow> pyfloat option" where
  "num_of (JBool b) = Some (Fin (if b then 1 else 0))"
| "num_of (JInt i) = Some (Fin (of_int i))"
| "num_of (JFloat f) = Some f"
| "num_of _ = None"

fun py_eq :: "json \<Rightarrow> json \<Rightarrow> bool" where
  "py_eq JNull b = (b = JNull)"
| "py_eq (JStr s) b = (b = JStr s)"
| "py_eq (JBool x) b = (num_of b = Some (Fin (if x then 1 else 0)))"
| "py_eq (JInt i) b = (num_of b = Some (Fin (of_int i)))"
| "py_eq (JFloat f) b = (f \<noteq> NaN \<and> num_of b = Some f)"
| "py_eq (JArr xs) b =
     (case b of JArr ys \<Rightarrow> list_all2 py_eq xs ys | _ \<Rightarrow> False)"
| "py_eq (JObj kvs) b =
     (case b of
        JObj kvs' \<Rightarrow>
          length (remdups (map fst kvs)) = length (remdups (map fst kvs')) \<and>
          list_all (\<lambda>(k, v). case map_of kvs' k of None \<Rightarrow> False
                                                   | Some v' \<Rightarrow> map_of kvs k = Some v \<longrightarrow> py_eq v v') kvs
      | _ \<Rightarrow> False)"

text \<open>\<^verbatim>\<open>sub in s\<close> on two strings: \<^verbatim>\<open>sub\<close> occurs in \<^verbatim>\<open>s\<close> as a contiguous run.\<close>

fun is_substring :: "string \<Rightarrow> string \<Rightarrow> bool" where
  "is_substring sub [] = (sub = [])"
| "is_substring sub (c # cs) = (take (length sub) (c # cs) = sub \<or> is_substring sub cs)"

text \<open>
  \<^verbatim>\<open>x in c\<close>: a key of a dict (an unhashable \<^verbatim>\<open>x\<close> raises), an element of a list,
  a substring of a string; any other container raises TypeError.
\<close>

fun py_in :: "json \<Rightarrow> json \<Rightarrow> exn + bool" where
  "py_in x (JObj kvs) =
     (case x of
        JArr _ \<Rightarrow> Inl TypeError
      | JObj _ \<Rightarrow> Inl TypeError
      | JStr k \<Rightarrow> Inr (k \<in> set (map fst kvs))
      | _ \<Rightarrow> Inr False)"
| "py_in x (JArr ys) = Inr (list_ex (py_eq x) ys)"
| "py_in x (JStr s) = (case x of JStr sub \<Rightarrow> Inr (is_substring sub s) | _ \<Rightarrow> Inl TypeError)"
| "py_in x _ = Inl TypeError"

text \<open>\<^verbatim>\<open>c[k]\<close> with a string key \<^verbatim>\<open>k\<close>: only a dict can be indexed by a string.\<close>

fun py_getitem :: "json \<Rightarrow> string \<Rightarrow> exn + json" where
  "py_getitem (JObj kvs) k = (case map_of kvs k of None \<Rightarrow> Inl KeyError | Some v \<Rightarrow> Inr v)"
| "py_getitem _ k = Inl TypeError"

text \<open>\<^verbatim>\<open>c.get(k, d)\<close>: a method of dicts only.\<close>

fun py_get :: "json \<Rightarrow> string \<Rightarrow> json \<Rightarrow> exn + json" where
  "py_get (JObj kvs) k d = (case map_of kvs k of None \<Rightarrow> Inr d | Some v \<Rightarrow> Inr v)"
| "py_get _ k d = Inl AttributeError"

text \<open>
  The elements a \<^verbatim>\<open>for\<close> loop visits: the items of a list, the keys of a dict, the
  characters of a string; other values are not iterable.
\<close>

fun py_iter :: "json \<Rightarrow> exn + json list" where
  "py_iter (JArr xs) = Inr xs"
| "py_iter (JObj kvs) = Inr (map JStr (remdups (map fst kvs)))"
| "py_iter (JStr s) = Inr (map (\<lambda>c. JStr [c]) s)"
| "py_iter _ = Inl TypeError"

fun py_len :: "json \<Rightarrow> exn + nat" where
  "py_len (JArr xs) = Inr (length xs)"
| "py_len (JObj kvs) = Inr (length (remdups (map fst kvs)))"
| "py_len (JStr s) = Inr (length s)"
| "py_len _ = Inl TypeError"

text \<open>
  Library functions of Python that the plugin calls and whose text is not part of the
  repository are parameters of the model: the text \<^verbatim>\<open>str(x)\<close> of a value that is not
  a string, \<^verbatim>\<open>json.dumps\<close>, \<^verbatim>\<open>int(s)\<close> on a string (None where it raises
  ValueError), \<^verbatim>\<open>str.upper\<close> and the text of an exception.
\<close>

record pylib =
  str_of :: "json \<Rightarrow> string"
  json_dumps :: "json \<Rightarrow> string"
  int_of_str :: "string \<Rightarrow> int option"
  str_upper :: "string \<Rightarrow> string"
  exn_text :: "exn \<Rightarrow> string"

text \<open>A value inside an f-string: a string stands for itself.\<close>

definition fmt :: "pylib \<Rightarrow> json \<Rightarrow> string" where
  "fmt L v = (case v of JStr s \<Rightarrow> s | _ \<Rightarrow> str_of L v)"

text \<open>\<^verbatim>\<open>int(x)\<close> of a float truncates towards zero.\<close>

definition trunc :: "rat \<Rightarrow> int" where
  "trunc r = (if 0 \<le> r then \<lfloor>r\<rfloor> else \<lceil>r\<rceil>)"

fun py_int :: "pylib \<Rightarrow> json \<Rightarrow> exn + int" where
  "py_int L (JInt i) = Inr i"
| "py_int L (JBool b) = Inr (if b then 1 else 0)"
| "py_int L (JFloat (Fin r)) = Inr (trunc r)"
| "py_int L (JFloat NaN) = Inl ValueError"
| "py_int L (JFloat PosInf) = Inl OverflowError"
| "py_int L (JFloat NegInf) = Inl OverflowError"
| "py_int L (JStr s) = (case int_of_str L s of None \<Rightarrow> Inl ValueError | Some i \<Rightarrow> Inr i)"
| "py_int L JNull = Inl TypeError"
| "py_int L (JArr xs) = Inl TypeError"
| "py_int L (JObj kvs) = Inl TypeError"

fun join :: "string \<Rightarrow> string list \<Rightarrow> string" where
  "join sep [] = []"
| "join sep [x] = x"
| "join sep (x # y # ys) = x @ sep @ join sep (y # ys)"

section \<open>Response envelopes\<close>

definition generate_failure_response :: "json \<Rightarrow> json" where
  "generate_failure_response message =
     JObj ([(''success'', JBool False)] @ (if py_truthy message then [(''message'', message)] else []))"

definition generate_success_response :: "json \<Rightarrow> json" where
  "generate_success_response message =
     JObj ([(''success'', JBool True)] @ (if py_truthy message then [(''message'', message)] else []))"

section \<open>Process state\<close>

text \<open>
  The module-level configuration variables, the configuration file they are reloaded
  from, the outcome of the file-system calls on a directory (None: no exception), and what
  the handlers have done so far: the threads they started and the HTTP requests they sent.
\<close>

datatype config_source = FileNotFound | InvalidJSON | Unreadable | Loaded json

datatype thread = Thread string "json list"

record world =
  GALLERY_DIRECTORY :: json
  NVIDIA_API_KEY :: json
  NGC_API_KEY :: json
  HF_TOKEN :: json
  LOCAL_NIM_CACHE :: json
  OUTPUT_DIRECTORY :: json
  FLUX_NIM_URL :: json
  INVOKEAI_URL :: json
  FLUX_KONTEXT_NIM_URL :: json
  COMFYUI_URL :: json
  FLUX_KONTEXT_INFERENCE_BACKEND :: json
  BOARD_ID :: json
  config_file :: config_source
  makedirs_raises :: "string \<Rightarrow> exn option"
  write_test_raises :: "string \<Rightarrow> exn option"
  threads :: "thread list"
  requests :: "string list"

definition BUILD_NVIDIA_COM_FLUX_HOSTED_NIM :: string where
  "BUILD_NVIDIA_COM_FLUX_HOSTED_NIM = ''https://ai.api.nvidia.com/v1/genai/black-forest-labs/flux.1-dev''"

definition config_get :: "(string \<times> json) list \<Rightarrow> string \<Rightarrow> json \<Rightarrow> json" where
  "config_get kvs k d = (case map_of kvs k of None \<Rightarrow> d | Some v \<Rightarrow> v)"

text \<open>
  \<^verbatim>\<open>load_config\<close>: every failure is logged and leaves the variables as they were; a
  configuration that is not a JSON object fails at the first \<^verbatim>\<open>config.get\<close>.
\<close>

definition load_config :: "world \<Rightarrow> world" where
  "load_config w =
     (case config_file w of
        Loaded (JObj config) \<Rightarrow>
          w\<lparr> GALLERY_DIRECTORY := config_get config ''GALLERY_DIRECTORY'' JNull,
             NVIDIA_API_KEY := config_get config ''NVIDIA_API_KEY'' JNull,
             NGC_API_KEY := config_get config ''NGC_API_KEY'' JNull,
             HF_TOKEN := config_get config ''HF_TOKEN'' JNull,
             LOCAL_NIM_CACHE := config_get config ''LOCAL_NIM_CACHE'' JNull,
             OUTPUT_DIRECTORY := config_get config ''OUTPUT_DIRECTORY'' (OUTPUT_DIRECTORY w),
             FLUX_NIM_URL := config_get config ''FLUX_NIM_URL'' (JStr BUILD_NVIDIA_COM_FLUX_HOSTED_NIM),
             INVOKEAI_URL := config_get config ''INVOKEAI_URL'' (JStr ''http://localhost:9090''),
             FLUX_KONTEXT_NIM_URL := config_get config ''FLUX_KONTEXT_NIM_URL'' (JStr ''http://localhost:8011''),
             COMFYUI_URL := config_get config ''COMFYUI_URL'' (JStr ''http://localhost:8188''),
             FLUX_KONTEXT_INFERENCE_BACKEND := config_get config ''FLUX_KONTEXT_INFERENCE_BACKEND'' (JStr ''NIM''),
             BOARD_ID := config_get config ''BOARD_ID'' JNull \<rparr>
      | _ \<Rightarrow> w)"

section \<open>Initialisation and shutdown\<close>

definition is_OSError :: "exn \<Rightarrow> bool" where
  "is_OSError e = (e = OSError \<or> e = PermissionError)"

text \<open>
  \<^verbatim>\<open>validate_output_directory\<close> catches OSError and PermissionError around
  \<^verbatim>\<open>os.makedirs\<close> and around the write test; any other exception leaves the function.
  \<^verbatim>\<open>os.makedirs\<close> raises TypeError on a value that is not a path.
\<close>

definition validate_output_directory :: "world \<Rightarrow> exn + bool" where
  "validate_output_directory w =
     (case OUTPUT_DIRECTORY w of
        JStr d \<Rightarrow>
          (case makedirs_raises w d of
             Some e \<Rightarrow> if is_OSError e then Inr False else Inl e
           | None \<Rightarrow>
               (case write_test_raises w d of
                  Some e \<Rightarrow> if is_OSError e then Inr False else Inl e
                | None \<Rightarrow> Inr True))
      | _ \<Rightarrow> Inl TypeError)"

definition execute_initialize_command :: "world \<Rightarrow> exn + json" where
  "execute_initialize_command w =
     bindE (validate_output_directory w) (\<lambda>valid.
       let validation_results =
             (if \<not> valid then [''OUTPUT_DIRECTORY configuration is invalid''] else []) @
             (if \<not> py_truthy (GALLERY_DIRECTORY w) then [''GALLERY_DIRECTORY not configured''] else [])
       in if validation_results \<noteq> []
          then Inr (generate_success_response
                 (JStr (''initialize success. '' @ ''Plugin initialized with warnings: '' @
                        join ''; '' validation_results)))
          else Inr (generate_success_response (JStr ''initialize success.'')))"

definition execute_shutdown_command :: "json" where
  "execute_shutdown_command = generate_success_response (JStr ''shutdown success.'')"

section \<open>The conditioned-generation command\<close>

definition start_thread :: "string \<Rightarrow> json list \<Rightarrow> world \<Rightarrow> world" where
  "start_thread target args w = w\<lparr>threads := threads w @ [Thread target args]\<rparr>"

text \<open>The acknowledgment returned after a worker thread has been started.\<close>

definition progress_message :: "pylib \<Rightarrow> string \<Rightarrow> world \<Rightarrow> json \<Rightarrow> json" where
  "progress_message L name w prompt =
     (if py_truthy prompt
      then JStr (''Your '' @ name @ '' generation request is in progress! Using screenshot from: '' @
                 fmt L (GALLERY_DIRECTORY w) @ '' with prompt: '' @ [CHR 0x22] @ fmt L prompt @ [CHR 0x22])
      else JStr (''Your '' @ name @ '' generation request is in progress! Using screenshot from: '' @
                 fmt L (GALLERY_DIRECTORY w)))"

definition url_missing_message :: "string \<Rightarrow> string \<Rightarrow> json" where
  "url_missing_message backend var =
     JStr (''FLUX_KONTEXT_INFERENCE_BACKEND is set to '' @ [CHR 0x27] @ backend @ [CHR 0x27] @
           '' but '' @ var @ '' is not configured. Please set '' @ var @ '' in config.json'')"

text \<open>\<^verbatim>\<open>x.upper()\<close>: a method of strings only.\<close>

definition py_upper :: "pylib \<Rightarrow> json \<Rightarrow> exn + string" where
  "py_upper L v = (case v of JStr s \<Rightarrow> Inr (str_upper L s) | _ \<Rightarrow> Inl AttributeError)"

text \<open>
  The body of the \<^verbatim>\<open>try\<close> block of \<^verbatim>\<open>generate_image_using_kontext\<close>, after
  \<^verbatim>\<open>load_config()\<close>: the result is the returned envelope or the exception raised,
  with the state reached.
\<close>

definition kontext_dispatch :: "pylib \<Rightarrow> json \<Rightarrow> int \<Rightarrow> world \<Rightarrow> (exn + json) \<times> world" where
  "kontext_dispatch L prompt steps w =
     (case py_upper L (FLUX_KONTEXT_INFERENCE_BACKEND w) of
        Inl e \<Rightarrow> (Inl e, w)
      | Inr backend \<Rightarrow>
          if backend = ''NIM'' then
            (if \<not> py_truthy (FLUX_KONTEXT_NIM_URL w)
             then (Inr (generate_failure_response (url_missing_message ''NIM'' ''FLUX_KONTEXT_NIM_URL'')), w)
             else (Inr (generate_success_response (progress_message L ''Flux Kontext NIM'' w prompt)),
                   start_thread ''generate_image_using_kontext_nim_worker''
                     [GALLERY_DIRECTORY w, FLUX_KONTEXT_NIM_URL w, prompt, JInt steps] w))
          else if backend = ''INVOKEAI'' then
            (if \<not> py_truthy (INVOKEAI_URL w)
             then (Inr (generate_failure_response (url_missing_message ''INVOKEAI'' ''INVOKEAI_URL'')), w)
             else (Inr (generate_success_response (progress_message L ''InvokeAI Flux Kontext'' w prompt)),
                   start_thread ''generate_image_using_kontext_worker''
                     [GALLERY_DIRECTORY w, INVOKEAI_URL w, BOARD_ID w, prompt, JInt steps] w))
          else if backend = ''COMFYUI'' then
            (if \<not> py_truthy (COMFYUI_URL w)
             then (Inr (generate_failure_response (url_missing_message ''COMFYUI'' ''COMFYUI_URL'')), w)
             else (Inr (generate_success_response (progress_message L ''ComfyUI Flux Kontext'' w prompt)),
                   start_thread ''generate_image_using_comfyui_worker''
                     [GALLERY_DIRECTORY w, COMFYUI_URL w, prompt, JInt steps] w))
          else
            (Inr (generate_failure_response
                    (JStr (''Invalid FLUX_KONTEXT_INFERENCE_BACKEND value: '' @ [CHR 0x27] @
                           fmt L (FLUX_KONTEXT_INFERENCE_BACKEND w) @ [CHR 0x27] @
                           ''. Must be one of: NIM, INVOKEAI, COMFYUI''))), w))"

definition kontext_try :: "pylib \<Rightarrow> json \<Rightarrow> world \<Rightarrow> (exn + json) \<times> world" where
  "kontext_try L params w =
     (if \<not> py_truthy (GALLERY_DIRECTORY w)
      then (Inr (generate_failure_response
                   (JStr ''GALLERY_DIRECTORY not configured. Please set GALLERY_DIRECTORY in config.json'')), w)
      else
        case (if py_truthy params then py_get params ''prompt'' (JStr []) else Inr (JStr [])) of
          Inl e \<Rightarrow> (Inl e, w)
        | Inr prompt \<Rightarrow>
            (case (if py_truthy params then py_get params ''steps'' (JInt 30) else Inr (JInt 30)) of
               Inl e \<Rightarrow> (Inl e, w)
             | Inr steps \<Rightarrow>
                 (case py_int L steps of
                    Inl e \<Rightarrow>
                      if e = ValueError \<or> e = TypeError
                      then (Inr (generate_failure_response (JStr ''Steps parameter must be an integer'')), w)
                      else (Inl e, w)
                  | Inr steps \<Rightarrow>
                      if steps < 20 \<or> steps > 50
                      then (Inr (generate_failure_response
                                   (JStr ''Steps parameter must be between 20 and 50'')), w)
                      else kontext_dispatch L prompt steps w)))"

text \<open>
  \<^verbatim>\<open>generate_image_using_kontext(params, context, system_info)\<close>: whatever the
  \<^verbatim>\<open>try\<close> block raises becomes a failure envelope.
\<close>

definition generate_image_using_kontext ::
    "pylib \<Rightarrow> json \<Rightarrow> json \<Rightarrow> json \<Rightarrow> world \<Rightarrow> json \<times> world" where
  "generate_image_using_kontext L params context system_info w =
     (case kontext_try L params (load_config w) of
        (Inr response, w') \<Rightarrow> (response, w')
      | (Inl e, w') \<Rightarrow>
          (generate_failure_response
             (JStr (''Error in generate_image_using_kontext: '' @ exn_text L e)), w'))"

section \<open>The command router\<close>

text \<open>
  The keys of the table \<^verbatim>\<open>commands\<close> of \<^verbatim>\<open>main\<close>. The handlers that talk to the
  services are a parameter \<open>H\<close> of the router; \<^verbatim>\<open>initialize\<close>, \<^verbatim>\<open>shutdown\<close>
  and \<^verbatim>\<open>generate_image_using_kontext\<close> are the functions above.
\<close>

definition command_names :: "string list" where
  "command_names =
     [''initialize'', ''shutdown'', ''flux_nim_ready_check'', ''check_nim_status'', ''stop_nim'',
      ''start_nim'', ''generate_image'', ''generate_image_using_kontext'', ''invokeai_status'',
      ''pause_invokeai_processor'', ''resume_invokeai_processor'', ''invokeai_empty_model_cache'',
      ''flux_kontext_nim_ready_check'', ''check_flux_kontext_nim_status'', ''stop_flux_kontext_nim'',
      ''start_flux_kontext_nim'', ''comfyui_status'', ''comfyui_free_memory'']"

type_synonym handler = "json \<Rightarrow> json \<Rightarrow> json \<Rightarrow> world \<Rightarrow> exn + json \<times> world"

definition commands :: "pylib \<Rightarrow> (string \<Rightarrow> handler) \<Rightarrow> string \<Rightarrow> handler" where
  "commands L H name =
     (if name = ''generate_image_using_kontext''
      then (\<lambda>params context system_info w.
              Inr (generate_image_using_kontext L params context system_info w))
      else H name)"

text \<open>\<^verbatim>\<open>cmd in commands\<close>: a list or a dict is unhashable.\<close>

definition in_commands :: "json \<Rightarrow> exn + bool" where
  "in_commands cmd =
     (case cmd of
        JArr _ \<Rightarrow> Inl TypeError
      | JObj _ \<Rightarrow> Inl TypeError
      | JStr name \<Rightarrow> Inr (name \<in> set command_names)
      | _ \<Rightarrow> Inr False)"

text \<open>\<^verbatim>\<open>input[k] if k in input else None\<close>\<close>

definition get_or_none :: "json \<Rightarrow> string \<Rightarrow> exn + json" where
  "get_or_none input k =
     bindE (py_in (JStr k) input) (\<lambda>present. if present then py_getitem input k else Inr JNull)"

text \<open>
  One pass of the loop \<^verbatim>\<open>for tool_call in tool_calls\<close>, on the variables
  \<^verbatim>\<open>cmd\<close> and \<^verbatim>\<open>response\<close> and the process state.
\<close>

definition tool_call_step ::
    "pylib \<Rightarrow> (string \<Rightarrow> handler) \<Rightarrow> json \<Rightarrow> json \<Rightarrow> json \<times> json \<times> world
      \<Rightarrow> exn + json \<times> json \<times> world" where
  "tool_call_step L H input tool_call st =
     (case st of (cmd0, response0, w) \<Rightarrow>
        bindE (py_in (JStr ''func'') tool_call) (\<lambda>has_func.
          if has_func then
            bindE (py_getitem tool_call ''func'') (\<lambda>cmd.
            bindE (in_commands cmd) (\<lambda>known.
              if known then
                (if cmd = JStr ''initialize'' then
                   bindE (execute_initialize_command w) (\<lambda>response. Inr (cmd, response, w))
                 else if cmd = JStr ''shutdown'' then
                   Inr (cmd, execute_shutdown_command, w)
                 else
                   bindE (execute_initialize_command w) (\<lambda>response.
                   bindE (py_get tool_call ''params'' JNull) (\<lambda>params.
                   bindE (get_or_none input ''messages'') (\<lambda>context.
                   bindE (get_or_none input ''system_info'') (\<lambda>system_info.
                   bindE (commands L H (case cmd of JStr name \<Rightarrow> name | _ \<Rightarrow> [])
                            params context system_info w)
                     (\<lambda>(response, w'). Inr (cmd, response, w')))))))
              else
                Inr (cmd, generate_failure_response
                            (JStr (''Plugin Error! Unknown command: '' @ fmt L cmd)), w)))
          else
            Inr (cmd0, generate_failure_response (JStr ''Plugin Error! Malformed input.''), w)))"

fun tool_calls_loop ::
    "pylib \<Rightarrow> (string \<Rightarrow> handler) \<Rightarrow> json \<Rightarrow> json list \<Rightarrow> json \<times> json \<times> world
      \<Rightarrow> exn + json \<times> json \<times> world" where
  "tool_calls_loop L H input [] st = Inr st"
| "tool_calls_loop L H input (tool_call # rest) st =
     bindE (tool_call_step L H input tool_call st) (tool_calls_loop L H input rest)"

text \<open>
  \<^verbatim>\<open>write_response\<close>: one write of the serialised response followed by the
  terminator; a failure of the write is swallowed. Only \<^verbatim>\<open>main\<close> calls it, so the
  messages written to the output pipe so far are a list of their own, out of the handlers'
  reach.
\<close>

definition write_response :: "pylib \<Rightarrow> json \<Rightarrow> string list \<Rightarrow> string list" where
  "write_response L response out = out @ [json_dumps L response @ ''<<END>>'']"

text \<open>
  The body of the \<^verbatim>\<open>while\<close> loop of \<^verbatim>\<open>main\<close> for a frame that
  \<^verbatim>\<open>read_command\<close> decoded to \<open>input\<close>: \<^verbatim>\<open>response = None\<close>, the dispatch,
  and \<^verbatim>\<open>write_response(response)\<close>. The variable \<^verbatim>\<open>cmd\<close> lives across frames.
  An exception (Inl) leaves \<^verbatim>\<open>main\<close>, which has no handler.
\<close>

definition main_body ::
    "pylib \<Rightarrow> (string \<Rightarrow> handler) \<Rightarrow> json \<Rightarrow> json \<times> world \<times> string list
      \<Rightarrow> exn + json \<times> world \<times> string list" where
  "main_body L H input st =
     (case st of (cmd0, w, out) \<Rightarrow>
        bindE (py_in (JStr ''tool_calls'') input) (\<lambda>has_calls.
          if has_calls then
            bindE (py_getitem input ''tool_calls'') (\<lambda>tool_calls.
            bindE (py_iter tool_calls) (\<lambda>calls.
            bindE (tool_calls_loop L H input calls (cmd0, JNull, w)) (\<lambda>(cmd, response, w').
              Inr (cmd, w', write_response L response out))))
          else
            Inr (cmd0, w, write_response L
                            (generate_failure_response (JStr ''Plugin Error! Malformed input.'')) out)))"

text \<open>
  The loop of \<^verbatim>\<open>main\<close> over the results of the successive calls of
  \<^verbatim>\<open>read_command\<close>: None is a frame that could not be read or decoded. The test
  \<^verbatim>\<open>if input is None\<close> holds for it and for a frame that is the JSON text
  \<^verbatim>\<open>null\<close>, which \<^verbatim>\<open>json.loads\<close> decodes to None: for both the loop
  continues without writing. The loop ends at the test \<^verbatim>\<open>while cmd != "shutdown"\<close>,
  at the \<^verbatim>\<open>break\<close> after the answer to a frame whose command is \<^verbatim>\<open>shutdown\<close>,
  or with an exception that leaves \<^verbatim>\<open>main\<close>; with no frame left it waits in
  \<^verbatim>\<open>ReadFile\<close>. The result carries the messages written.
\<close>

datatype main_end = Stopped | Crashed exn | Waiting

fun main_loop ::
    "pylib \<Rightarrow> (string \<Rightarrow> handler) \<Rightarrow> json option list \<Rightarrow> json \<times> world \<times> string list
      \<Rightarrow> main_end \<times> string list" where
  "main_loop L H [] (cmd, w, out) = (if cmd = JStr ''shutdown'' then Stopped else Waiting, out)"
| "main_loop L H (frame # frames) (cmd, w, out) =
     (if cmd = JStr ''shutdown'' then (Stopped, out)
      else case frame of
        None \<Rightarrow> main_loop L H frames (cmd, w, out)
      | Some input \<Rightarrow>
          if input = JNull then main_loop L H frames (cmd, w, out)
          else case main_body L H input (cmd, w, out) of
            Inl e \<Rightarrow> (Crashed e, out)
          | Inr (cmd', w', out') \<Rightarrow>
              if cmd' = JStr ''shutdown'' then (Stopped, out')
              else main_loop L H frames (cmd', w', out'))"

definition main :: "pylib \<Rightarrow> (string \<Rightarrow> handler) \<Rightarrow> json option list \<Rightarrow> world \<Rightarrow> main_end \<times> string list" where
  "main L H frames w = main_loop L H frames (JStr [], load_config w, [])"

section \<open>The pipe transport\<close>

text \<open>
  \<^verbatim>\<open>read_command\<close> calls \<^verbatim>\<open>ReadFile\<close> on the input pipe with a fresh zeroed
  buffer of \<^verbatim>\<open>BUFFER_SIZE\<close> bytes until a read delivers fewer bytes than that. The
  pipe is the list of the results of the successive calls: a failure, or the bytes
  delivered (at most \<^verbatim>\<open>BUFFER_SIZE\<close>). On the empty list \<^verbatim>\<open>ReadFile\<close> blocks for
  ever: the model answers None. The decoder \<^verbatim>\<open>bytes.decode("utf-8")\<close> (None where
  it raises) and \<^verbatim>\<open>json.loads\<close> (None where it raises) are parameters; \<open>'u\<close> is the
  type of the characters of a decoded text.
\<close>

type_synonym bytes = "char list"

datatype read = ReadFailed | ReadOK bytes

definition BUFFER_SIZE :: nat where
  "BUFFER_SIZE = 4096"

text \<open>\<^verbatim>\<open>buffer.decode("utf-8")[: message_bytes.value]\<close> after a read that delivered \<open>data\<close>.\<close>

definition chunk_text :: "(bytes \<Rightarrow> 'u list option) \<Rightarrow> bytes \<Rightarrow> 'u list option" where
  "chunk_text decode data =
     map_option (take (length data))
       (decode (data @ replicate (BUFFER_SIZE - length data) (CHR 0x00)))"

text \<open>
  The \<^verbatim>\<open>while True\<close> loop, on the list \<^verbatim>\<open>chunks\<close>. It ends with an early
  \<^verbatim>\<open>return None\<close> (Inl), or at the \<^verbatim>\<open>break\<close> with the bytes of the last read and
  the chunks collected (Inr); the rest of the pipe is returned with it.
\<close>

fun read_loop ::
    "(bytes \<Rightarrow> 'u list option) \<Rightarrow> 'u list list \<Rightarrow> read list
      \<Rightarrow> ((unit + bytes \<times> 'u list list) \<times> read list) option" where
  "read_loop decode chunks [] = None"
| "read_loop decode chunks (ReadFailed # rest) = Some (Inl (), rest)"
| "read_loop decode chunks (ReadOK data # rest) =
     (case chunk_text decode data of
        None \<Rightarrow> Some (Inl (), rest)
      | Some chunk \<Rightarrow>
          if length data < BUFFER_SIZE
          then Some (Inr (data, chunks @ [chunk]), rest)
          else read_loop decode (chunks @ [chunk]) rest)"

definition read_command ::
    "(bytes \<Rightarrow> 'u list option) \<Rightarrow> ('u list \<Rightarrow> json option) \<Rightarrow> read list
      \<Rightarrow> (json option \<times> read list) option" where
  "read_command decode loads pipe =
     (case read_loop decode [] pipe of
        None \<Rightarrow> None
      | Some (Inl u, rest) \<Rightarrow> Some (None, rest)
      | Some (Inr (data, chunks), rest) \<Rightarrow>
          Some (case chunk_text decode data of
                  None \<Rightarrow> None
                | Some retval \<Rightarrow> loads retval, rest))"


section \<open>The execution monitor of the streaming backend\<close>

text \<open>\<^verbatim>\<open>c[k]\<close> with any key: a dict by a hashable key, a list or a string by an integer.\<close>

definition py_index :: "'a list \<Rightarrow> int \<Rightarrow> 'a option" where
  "py_index xs i =
     (if 0 \<le> i \<and> i < int (length xs) then Some (xs ! nat i)
      else if i < 0 \<and> - i \<le> int (length xs) then Some (xs ! nat (int (length xs) + i))
      else None)"

fun py_subscript :: "json \<Rightarrow> json \<Rightarrow> exn + json" where
  "py_subscript (JObj kvs) k =
     (case k of
        JArr _ \<Rightarrow> Inl TypeError
      | JObj _ \<Rightarrow> Inl TypeError
      | JStr s \<Rightarrow> (case map_of kvs s of None \<Rightarrow> Inl KeyError | Some v \<Rightarrow> Inr v)
      | _ \<Rightarrow> Inl KeyError)"
| "py_subscript (JArr xs) k =
     (case k of
        JInt i \<Rightarrow> (case py_index xs i of None \<Rightarrow> Inl IndexError | Some v \<Rightarrow> Inr v)
      | JBool b \<Rightarrow> (case py_index xs (if b then 1 else 0) of None \<Rightarrow> Inl IndexError | Some v \<Rightarrow> Inr v)
      | _ \<Rightarrow> Inl TypeError)"
| "py_subscript (JStr s) k =
     (case k of
        JInt i \<Rightarrow> (case py_index s i of None \<Rightarrow> Inl IndexError | Some c \<Rightarrow> Inr (JStr [c]))
      | JBool b \<Rightarrow> (case py_index s (if b then 1 else 0) of None \<Rightarrow> Inl IndexError | Some c \<Rightarrow> Inr (JStr [c]))
      | _ \<Rightarrow> Inl TypeError)"
| "py_subscript _ k = Inl TypeError"

text \<open>
  What the services answer. An HTTP call raises or returns a status code with a body;
  \<^verbatim>\<open>response.json()\<close> raises on a body that is not JSON (None). A
  \<^verbatim>\<open>ws.recv()\<close> times out, raises another exception, or returns a text or a binary
  frame. Each pass of the monitoring loop reads the clock and then receives: a tick is
  the time elapsed since \<^verbatim>\<open>start_time\<close>, in microseconds, and the result of the
  \<^verbatim>\<open>recv\<close> that follows.
\<close>

datatype http_result = HttpRaises exn | HttpResponse nat "json option"

datatype fetch_result = FetchRaises exn | FetchResponse nat bytes

datatype recv = RecvTimeout | RecvRaises | RecvText string | RecvBinary bytes

record comfy_env =
  client_id :: string
  post_prompt :: http_result
  ws_connect_raises :: "exn option"
  ticks :: "(int \<times> recv) list"
  get_history :: http_result
  get_view :: "nat \<Rightarrow> string \<Rightarrow> fetch_result"

text \<open>The calls that \<^verbatim>\<open>execute_comfyui_workflow\<close> makes, in order.\<close>

datatype call =
    PostPrompt string json
  | GetStatus string
  | WsConnect string
  | WsRecv
  | WsClose
  | GetHistory string
  | GetView string

type_synonym images = "(string \<times> bytes list) list"

text \<open>\<^verbatim>\<open>s.replace(old, new)\<close> for a non-empty \<^verbatim>\<open>old\<close>.\<close>

function str_replace :: "string \<Rightarrow> string \<Rightarrow> string \<Rightarrow> string" where
  "str_replace old new [] = []"
| "str_replace old new (c # cs) =
     (if old \<noteq> [] \<and> take (length old) (c # cs) = old
      then new @ str_replace old new (drop (length old) (c # cs))
      else c # str_replace old new cs)"
  by pat_completeness auto
termination
  by (relation "measure (\<lambda>(old, new, s). length s)") auto

definition ws_url :: "string \<Rightarrow> string \<Rightarrow> string" where
  "ws_url comfyui_url cid =
     ''ws://'' @ str_replace ''https://'' [] (str_replace ''http://'' [] comfyui_url) @
     ''/ws?clientId='' @ cid"

text \<open>
  The handling of one decoded text message: True when it sets
  \<^verbatim>\<open>workflow_completed\<close> and breaks, False when the loop goes on, Inl for an
  exception, which the loop does not catch.
\<close>

definition handle_message :: "json \<Rightarrow> json \<Rightarrow> exn + bool" where
  "handle_message message prompt_id =
     bindE (py_getitem message ''type'') (\<lambda>ty.
       if py_eq ty (JStr ''executing'') then
         bindE (py_getitem message ''data'') (\<lambda>data.
         bindE (py_in (JStr ''prompt_id'') data) (\<lambda>has_id.
           if has_id then
             bindE (py_getitem data ''prompt_id'') (\<lambda>pid.
               if py_eq pid prompt_id
               then bindE (py_getitem data ''node'') (\<lambda>node. Inr (node = JNull))
               else Inr False)
           else Inr False))
       else if py_eq ty (JStr ''executed'') then
         bindE (py_getitem message ''data'') (\<lambda>data.
         bindE (py_in (JStr ''node'') data) (\<lambda>has_node.
           if has_node then
             bindE (py_getitem data ''node'') (\<lambda>node_id.
               if py_eq node_id (JStr ''1'') then
                 bindE (py_in (JStr ''output'') data) (\<lambda>has_output.
                   if has_output then
                     bindE (py_getitem data ''output'') (\<lambda>output.
                     bindE (py_in (JStr ''images'') output) (\<lambda>has_images.
                       if has_images then
                         bindE (py_getitem output ''images'') (\<lambda>images.
                         bindE (py_len images) (\<lambda>n. Inr True))
                       else Inr False))
                   else Inr False)
               else Inr False)
           else Inr False))
       else Inr False)"

text \<open>\<^verbatim>\<open>if "1" not in output_images: output_images["1"] = []\<close>, then the append.\<close>

definition store_image :: "bytes \<Rightarrow> images \<Rightarrow> images" where
  "store_image b output_images =
     (case map_of output_images ''1'' of
        None \<Rightarrow> output_images @ [(''1'', [b])]
      | Some bs \<Rightarrow> map (\<lambda>(k, v). if k = ''1'' then (k, v @ [b]) else (k, v)) output_images)"

text \<open>
  How the loop \<^verbatim>\<open>while not workflow_completed\<close> ends: at a \<^verbatim>\<open>break\<close> with the
  flag \<^verbatim>\<open>workflow_completed\<close> and the images received, with an exception, or not
  within the ticks given (the loop is still monitoring). The number is that of the
  \<^verbatim>\<open>recv\<close> calls made.
\<close>

datatype loop_end = Broke bool images | Raised exn | Monitoring images

definition timeout_us :: int where
  "timeout_us = 300 * 1000000"

fun monitor_loop ::
    "(string \<Rightarrow> json option) \<Rightarrow> json \<Rightarrow> (int \<times> recv) list \<Rightarrow> images \<Rightarrow> nat
      \<Rightarrow> loop_end \<times> nat" where
  "monitor_loop loads prompt_id [] output_images n = (Monitoring output_images, n)"
| "monitor_loop loads prompt_id ((elapsed, r) # rest) output_images n =
     (if elapsed > timeout_us then (Broke False output_images, n)
      else case r of
        RecvTimeout \<Rightarrow> monitor_loop loads prompt_id rest output_images (Suc n)
      | RecvRaises \<Rightarrow> monitor_loop loads prompt_id rest output_images (Suc n)
      | RecvText out \<Rightarrow>
          (case loads out of
             None \<Rightarrow> monitor_loop loads prompt_id rest output_images (Suc n)
           | Some message \<Rightarrow>
               (case handle_message message prompt_id of
                  Inl e \<Rightarrow> (Raised e, Suc n)
                | Inr True \<Rightarrow> (Broke True output_images, Suc n)
                | Inr False \<Rightarrow> monitor_loop loads prompt_id rest output_images (Suc n)))
      | RecvBinary out \<Rightarrow>
          monitor_loop loads prompt_id rest (store_image out output_images) (Suc n))"

text \<open>
  The download loop of the history fallback, on the list \<^verbatim>\<open>output_images["1"]\<close>:
  an exception ends it (Inl) and keeps what was stored before.
\<close>

definition view_url :: "pylib \<Rightarrow> string \<Rightarrow> json \<Rightarrow> exn + string" where
  "view_url L comfyui_url image_info =
     bindE (py_getitem image_info ''filename'') (\<lambda>filename.
     bindE (py_get image_info ''subfolder'' (JStr [])) (\<lambda>subfolder.
       Inr (comfyui_url @ ''/view?filename='' @ fmt L filename @
            ''&type=output&subfolder='' @ fmt L subfolder)))"

fun download_images ::
    "pylib \<Rightarrow> (nat \<Rightarrow> string \<Rightarrow> fetch_result) \<Rightarrow> string \<Rightarrow> nat \<Rightarrow> json list \<Rightarrow> bytes list
      \<Rightarrow> call list \<Rightarrow> (exn + unit) \<times> bytes list \<times> call list" where
  "download_images L view comfyui_url i [] stored trace = (Inr (), stored, trace)"
| "download_images L view comfyui_url i (image_info # rest) stored trace =
     (case view_url L comfyui_url image_info of
        Inl e \<Rightarrow> (Inl e, stored, trace)
      | Inr image_url \<Rightarrow>
          (case view i image_url of
             FetchRaises e \<Rightarrow> (Inl e, stored, trace @ [GetView image_url])
           | FetchResponse status content \<Rightarrow>
               download_images L view comfyui_url (Suc i) rest
                 (if status = 200 then stored @ [content] else stored)
                 (trace @ [GetView image_url])))"

text \<open>
  The \<^verbatim>\<open>try\<close> block of the fallback, entered with an empty \<^verbatim>\<open>output_images\<close>:
  the dict as the block leaves it, normally or by an exception (all are caught and
  logged), and the calls made.
\<close>

definition history_images :: "json \<Rightarrow> json \<Rightarrow> exn + json option" where
  "history_images history prompt_id =
     bindE (py_in prompt_id history) (\<lambda>found.
       if found then
         bindE (py_subscript history prompt_id) (\<lambda>workflow_history.
         bindE (py_get workflow_history ''outputs'' (JObj [])) (\<lambda>outputs.
         bindE (py_in (JStr ''1'') outputs) (\<lambda>has_node.
           if has_node then
             bindE (py_getitem workflow_history ''outputs'') (\<lambda>outputs'.
             bindE (py_getitem outputs' ''1'') (\<lambda>save_image_output.
             bindE (py_in (JStr ''images'') save_image_output) (\<lambda>has_images.
               if has_images then
                 bindE (py_getitem save_image_output ''images'') (\<lambda>images.
                 bindE (py_len images) (\<lambda>n. Inr (Some images)))
               else Inr None)))
           else Inr None)))
       else Inr None)"

definition history_fallback ::
    "pylib \<Rightarrow> comfy_env \<Rightarrow> string \<Rightarrow> json \<Rightarrow> images \<times> call list" where
  "history_fallback L env comfyui_url prompt_id =
     (let trace = [GetHistory (comfyui_url @ ''/history'')] in
      case get_history env of
        HttpRaises e \<Rightarrow> ([], trace)
      | HttpResponse status body \<Rightarrow>
          if status = 200 then
            (case body of
               None \<Rightarrow> ([], trace)
             | Some history \<Rightarrow>
                 (case history_images history prompt_id of
                    Inl e \<Rightarrow> ([], trace)
                  | Inr None \<Rightarrow> ([], trace)
                  | Inr (Some images) \<Rightarrow>
                      (case py_iter images of
                         Inl e \<Rightarrow> ([(''1'', [])], trace)
                       | Inr infos \<Rightarrow>
                           (case download_images L (get_view env) comfyui_url 0 infos [] trace of
                              (r, stored, trace') \<Rightarrow> ([(''1'', stored)], trace')))))
          else ([], trace))"

text \<open>
  \<^verbatim>\<open>execute_comfyui_workflow(workflow_data, comfyui_url)\<close>: the value returned
  (every exception handler returns None) and the calls made. The outer None is a loop
  that is still monitoring when the ticks given are used up.
\<close>

definition execute_comfyui_workflow ::
    "pylib \<Rightarrow> (string \<Rightarrow> json option) \<Rightarrow> comfy_env \<Rightarrow> json \<Rightarrow> string
      \<Rightarrow> (images option \<times> call list) option" where
  "execute_comfyui_workflow L loads env workflow_data comfyui_url =
     (let payload = JObj [(''prompt'', workflow_data), (''client_id'', JStr (client_id env))];
          t1 = [PostPrompt (comfyui_url @ ''/prompt'') payload]
      in case post_prompt env of
        HttpRaises e \<Rightarrow> Some (None, t1)
      | HttpResponse status body \<Rightarrow>
          if 400 \<le> status \<and> status < 600 then Some (None, t1)
          else case body of
            None \<Rightarrow> Some (None, t1)
          | Some result \<Rightarrow>
              (case py_get result ''prompt_id'' JNull of
                 Inl e \<Rightarrow> Some (None, t1)
               | Inr prompt_id \<Rightarrow>
                   if \<not> py_truthy prompt_id then Some (None, t1)
                   else
                     let t2 = t1 @ [GetStatus (comfyui_url @ ''/prompt''),
                                    WsConnect (ws_url comfyui_url (client_id env))]
                     in case ws_connect_raises env of
                       Some e \<Rightarrow> Some (None, t2)
                     | None \<Rightarrow>
                         (case monitor_loop loads prompt_id (ticks env) [] 0 of
                            (Monitoring output_images, n) \<Rightarrow> None
                          | (Raised e, n) \<Rightarrow> Some (None, t2 @ replicate n WsRecv @ [WsClose])
                          | (Broke workflow_completed output_images, n) \<Rightarrow>
                              let t3 = t2 @ replicate n WsRecv @ [WsClose] in
                              if output_images = [] then
                                (case history_fallback L env comfyui_url prompt_id of
                                   (output_images', t4) \<Rightarrow>
                                     Some (if output_images' \<noteq> [] then Some output_images' else None,
                                           t3 @ t4))
                              else Some (Some output_images, t3))))"

text \<open>The requests to the history endpoint among the calls made.\<close>

fun is_history :: "call \<Rightarrow> bool" where
  "is_history (GetHistory u) = True"
| "is_history _ = False"

text \<open>
  A download to be expected in the history fallback: an image descriptor of the history
  entry, the URL built for it, and the status and content that the service answers.
\<close>

record planned_fetch =
  pf_descriptor :: json
  pf_url :: string
  pf_status :: nat
  pf_content :: bytes

section \<open>Workflow templates and their per-request copies\<close>

text \<open>
  The workflow templates are module-level dicts, and \<^verbatim>\<open>copy.deepcopy\<close> and the
  item assignments of the two \<^verbatim>\<open>modify\<close> functions act on objects with identity. The
  store is a list of objects; the address of an object is its position, and a new object
  is appended. A value is an atom or the address of a dict or a list.
\<close>

datatype hval = HNone | HBool bool | HInt int | HFloat pyfloat | HStr string | HRef nat

datatype hobj = HDict "(string \<times> hval) list" | HList "hval list"

type_synonym heap = "hobj list"

text \<open>\<^verbatim>\<open>d[k] = v\<close> on the items of a dict: an existing key keeps its place.\<close>

definition dict_set :: "(string \<times> hval) list \<Rightarrow> string \<Rightarrow> hval \<Rightarrow> (string \<times> hval) list" where
  "dict_set kvs k v =
     (if k \<in> fst ` set kvs
      then map (\<lambda>(k', v'). if k' = k then (k', v) else (k', v')) kvs
      else kvs @ [(k, v)])"

text \<open>
  \<^verbatim>\<open>x[k]\<close>, \<^verbatim>\<open>x[k] = v\<close>, \<^verbatim>\<open>k in x\<close> and \<^verbatim>\<open>x.get(k)\<close> with a string key on
  a value of the store. Only a dict supports them with a string (a string supports
  \<^verbatim>\<open>in\<close>, a list \<^verbatim>\<open>in\<close> as membership).
\<close>

definition h_getitem :: "heap \<Rightarrow> hval \<Rightarrow> string \<Rightarrow> exn + hval" where
  "h_getitem h x k =
     (case x of
        HRef a \<Rightarrow>
          (if a < length h then
             (case h ! a of
                HDict kvs \<Rightarrow> (case map_of kvs k of None \<Rightarrow> Inl KeyError | Some v \<Rightarrow> Inr v)
              | HList xs \<Rightarrow> Inl TypeError)
           else Inl TypeError)
      | _ \<Rightarrow> Inl TypeError)"

definition h_setitem :: "heap \<Rightarrow> hval \<Rightarrow> string \<Rightarrow> hval \<Rightarrow> exn + heap" where
  "h_setitem h x k v =
     (case x of
        HRef a \<Rightarrow>
          (if a < length h then
             (case h ! a of
                HDict kvs \<Rightarrow> Inr (h[a := HDict (dict_set kvs k v)])
              | HList xs \<Rightarrow> Inl TypeError)
           else Inl TypeError)
      | _ \<Rightarrow> Inl TypeError)"

definition h_contains :: "heap \<Rightarrow> string \<Rightarrow> hval \<Rightarrow> exn + bool" where
  "h_contains h k x =
     (case x of
        HRef a \<Rightarrow>
          (if a < length h then
             (case h ! a of
                HDict kvs \<Rightarrow> Inr (k \<in> fst ` set kvs)
              | HList xs \<Rightarrow> Inr (HStr k \<in> set xs))
           else Inl TypeError)
      | HStr s \<Rightarrow> Inr (is_substring k s)
      | _ \<Rightarrow> Inl TypeError)"

definition h_get :: "heap \<Rightarrow> hval \<Rightarrow> string \<Rightarrow> exn + hval" where
  "h_get h x k =
     (case x of
        HRef a \<Rightarrow>
          (if a < length h then
             (case h ! a of
                HDict kvs \<Rightarrow> (case map_of kvs k of None \<Rightarrow> Inr HNone | Some v \<Rightarrow> Inr v)
              | HList xs \<Rightarrow> Inl AttributeError)
           else Inl AttributeError)
      | _ \<Rightarrow> Inl AttributeError)"

text \<open>
  \<^verbatim>\<open>copy.deepcopy(x, memo)\<close>. An atom is returned as it is. A dict or a list that the
  memo knows is answered by its copy; otherwise an empty copy is created and entered in
  the memo, and then filled with the copies of the items. The first argument bounds the
  depth of the recursion; the answer None means that the bound was reached (or that an
  address points outside the store), and then no copy is returned.

  The two loops that fill a copy at the address \<open>y\<close> take the function \<open>copy\<close> that
  copies an item.
\<close>

type_synonym memo = "(nat \<times> nat) list"

fun copy_dict_items ::
    "(hval \<Rightarrow> heap \<Rightarrow> memo \<Rightarrow> hval option \<times> heap \<times> memo) \<Rightarrow> (string \<times> hval) list \<Rightarrow> nat
      \<Rightarrow> heap \<Rightarrow> memo \<Rightarrow> bool \<times> heap \<times> memo" where
  "copy_dict_items copy [] y h memo = (True, h, memo)"
| "copy_dict_items copy ((k, v) # kvs) y h memo =
     (case copy v h memo of
        (None, h', memo') \<Rightarrow> (False, h', memo')
      | (Some v', h', memo') \<Rightarrow>
          copy_dict_items copy kvs y
            (case h' ! y of HDict items \<Rightarrow> h'[y := HDict (dict_set items k v')] | HList items \<Rightarrow> h')
            memo')"

fun copy_list_items ::
    "(hval \<Rightarrow> heap \<Rightarrow> memo \<Rightarrow> hval option \<times> heap \<times> memo) \<Rightarrow> hval list \<Rightarrow> nat
      \<Rightarrow> heap \<Rightarrow> memo \<Rightarrow> bool \<times> heap \<times> memo" where
  "copy_list_items copy [] y h memo = (True, h, memo)"
| "copy_list_items copy (v # vs) y h memo =
     (case copy v h memo of
        (None, h', memo') \<Rightarrow> (False, h', memo')
      | (Some v', h', memo') \<Rightarrow>
          copy_list_items copy vs y
            (case h' ! y of HList items \<Rightarrow> h'[y := HList (items @ [v'])] | HDict items \<Rightarrow> h')
            memo')"

definition copy_object ::
    "(hval \<Rightarrow> heap \<Rightarrow> memo \<Rightarrow> hval option \<times> heap \<times> memo) \<Rightarrow> nat \<Rightarrow> heap \<Rightarrow> memo
      \<Rightarrow> hval option \<times> heap \<times> memo" where
  "copy_object copy a h memo =
     (case map_of memo a of
        Some y \<Rightarrow> (Some (HRef y), h, memo)
      | None \<Rightarrow>
          if a < length h then
            (case (case h ! a of
                     HDict kvs \<Rightarrow> copy_dict_items copy kvs (length h) (h @ [HDict []]) ((a, length h) # memo)
                   | HList xs \<Rightarrow> copy_list_items copy xs (length h) (h @ [HList []]) ((a, length h) # memo)) of
               (ok, h', memo') \<Rightarrow> (if ok then Some (HRef (length h)) else None, h', memo'))
          else (None, h, memo))"

primrec deepcopy :: "nat \<Rightarrow> hval \<Rightarrow> heap \<Rightarrow> memo \<Rightarrow> hval option \<times> heap \<times> memo" where
  "deepcopy 0 x h memo = (None, h, memo)"
| "deepcopy (Suc fuel) x h memo =
     (case x of
        HRef a \<Rightarrow> copy_object (deepcopy fuel) a h memo
      | _ \<Rightarrow> (Some x, h, memo))"

text \<open>What a call returns in the model: a value, or nothing when the copy was cut off.\<close>

datatype 'a outcome = CutOff | Returned 'a

text \<open>
  The chain \<^verbatim>\<open>x[k1][k2]...\<close> of item reads.
\<close>

fun h_path :: "heap \<Rightarrow> hval \<Rightarrow> string list \<Rightarrow> exn + hval" where
  "h_path h x [] = Inr x"
| "h_path h x (k # ks) = bindE (h_getitem h x k) (\<lambda>y. h_path h y ks)"

text \<open>
  \<^verbatim>\<open>modify_workflow_for_kontext(workflow_data, prompt, image_name)\<close>: the value
  returned (None after an exception) and the store after the call.
\<close>

definition modify_workflow_for_kontext ::
    "nat \<Rightarrow> heap \<Rightarrow> hval \<Rightarrow> hval \<Rightarrow> hval \<Rightarrow> hval outcome \<times> heap" where
  "modify_workflow_for_kontext fuel h workflow_data prompt image_name =
     (case deepcopy fuel workflow_data h [] of
        (None, h1, memo) \<Rightarrow> (CutOff, h1)
      | (Some modified_workflow, h1, memo) \<Rightarrow>
          (case h_path h1 modified_workflow
                  [''batch'', ''graph'', ''nodes'', ''positive_prompt:0oQdkhpu9K''] of
             Inl e \<Rightarrow> (Returned HNone, h1)
           | Inr prompt_node \<Rightarrow>
               (case h_setitem h1 prompt_node ''value'' prompt of
                  Inl e \<Rightarrow> (Returned HNone, h1)
                | Inr h2 \<Rightarrow>
                    (case h_path h2 modified_workflow
                            [''batch'', ''graph'', ''nodes'', ''flux_kontext:MsQ9ynwazR'', ''image''] of
                       Inl e \<Rightarrow> (Returned HNone, h2)
                     | Inr image_dict \<Rightarrow>
                         (case h_setitem h2 image_dict ''image_name'' image_name of
                            Inl e \<Rightarrow> (Returned HNone, h2)
                          | Inr h3 \<Rightarrow> (Returned modified_workflow, h3))))))"

text \<open>
  The search loop of \<^verbatim>\<open>modify_comfyui_workflow_for_kontext\<close> over the items of the
  copied workflow: the last node of each class wins.
\<close>

fun find_nodes ::
    "heap \<Rightarrow> (string \<times> hval) list \<Rightarrow> string option \<Rightarrow> string option
      \<Rightarrow> exn + string option \<times> string option" where
  "find_nodes h [] nimflux_node_id loadimage_node_id = Inr (nimflux_node_id, loadimage_node_id)"
| "find_nodes h ((node_id, node_data) # rest) nimflux_node_id loadimage_node_id =
     bindE (h_get h node_data ''class_type'') (\<lambda>class_type.
       if class_type = HStr ''NIMFLUXNode'' then find_nodes h rest (Some node_id) loadimage_node_id
       else if class_type = HStr ''LoadImage'' then find_nodes h rest nimflux_node_id (Some node_id)
       else find_nodes h rest nimflux_node_id loadimage_node_id)"

text \<open>The items of a dict value; \<^verbatim>\<open>len\<close>, \<^verbatim>\<open>keys\<close> and \<^verbatim>\<open>items\<close> of another value raise.\<close>

definition h_items :: "heap \<Rightarrow> hval \<Rightarrow> exn + (string \<times> hval) list" where
  "h_items h x =
     (case x of
        HRef a \<Rightarrow>
          (if a < length h then
             (case h ! a of HDict kvs \<Rightarrow> Inr kvs | HList xs \<Rightarrow> Inl AttributeError)
           else Inl TypeError)
      | _ \<Rightarrow> Inl TypeError)"

fun class_types :: "heap \<Rightarrow> (string \<times> hval) list \<Rightarrow> exn + hval list" where
  "class_types h [] = Inr []"
| "class_types h ((node_id, node_data) # rest) =
     bindE (h_get h node_data ''class_type'') (\<lambda>t.
     bindE (class_types h rest) (\<lambda>ts. Inr (t # ts)))"

text \<open>
  The first part of the \<^verbatim>\<open>try\<close> block of
  \<^verbatim>\<open>modify_comfyui_workflow_for_kontext\<close> after the copy, which only reads: the two
  nodes to patch, or None where the function returns None.
\<close>

definition find_patch_points :: "heap \<Rightarrow> hval \<Rightarrow> exn + (hval \<times> hval) option" where
  "find_patch_points h modified_workflow =
     bindE (h_items h modified_workflow) (\<lambda>items.
     bindE (class_types h items) (\<lambda>node_types.
     bindE (find_nodes h items None None) (\<lambda>(nimflux_node_id, loadimage_node_id).
       case nimflux_node_id of
         None \<Rightarrow> Inr None
       | Some nim_id \<Rightarrow>
           if nim_id = [] then Inr None
           else
             (case loadimage_node_id of
                None \<Rightarrow> Inr None
              | Some load_id \<Rightarrow>
                  if load_id = [] then Inr None
                  else
                    bindE (h_getitem h modified_workflow nim_id) (\<lambda>nimflux_node.
                    bindE (h_getitem h modified_workflow load_id) (\<lambda>loadimage_node.
                    bindE (h_contains h ''inputs'' nimflux_node) (\<lambda>has_inputs.
                      if has_inputs then Inr (Some (nimflux_node, loadimage_node))
                      else Inr None)))))))"

text \<open>
  \<^verbatim>\<open>if k in node["inputs"]: node["inputs"][k] = v\<close>, \<^verbatim>\<open>else: return None\<close>
  (the answer None).
\<close>

definition patch_input :: "heap \<Rightarrow> hval \<Rightarrow> string \<Rightarrow> hval \<Rightarrow> exn + heap option" where
  "patch_input h node k v =
     bindE (bindE (h_getitem h node ''inputs'') (h_contains h k)) (\<lambda>present.
       if present
       then bindE (h_getitem h node ''inputs'') (\<lambda>inputs.
            bindE (h_setitem h inputs k v) (\<lambda>h'. Inr (Some h')))
       else Inr None)"

text \<open>
  The \<^verbatim>\<open>try\<close> block after the copy: the exception raised or the value returned, and
  the store reached.
\<close>

definition patch_comfyui_workflow ::
    "heap \<Rightarrow> hval \<Rightarrow> hval \<Rightarrow> hval \<Rightarrow> hval \<Rightarrow> (exn + hval) \<times> heap" where
  "patch_comfyui_workflow h modified_workflow prompt image_name steps =
     (case find_patch_points h modified_workflow of
        Inl e \<Rightarrow> (Inl e, h)
      | Inr None \<Rightarrow> (Inr HNone, h)
      | Inr (Some (nimflux_node, loadimage_node)) \<Rightarrow>
          (case patch_input h nimflux_node ''prompt'' prompt of
             Inl e \<Rightarrow> (Inl e, h)
           | Inr None \<Rightarrow> (Inr HNone, h)
           | Inr (Some h1) \<Rightarrow>
               (case patch_input h1 nimflux_node ''steps'' steps of
                  Inl e \<Rightarrow> (Inl e, h1)
                | Inr None \<Rightarrow> (Inr HNone, h1)
                | Inr (Some h2) \<Rightarrow>
                    (case patch_input h2 loadimage_node ''image'' image_name of
                       Inl e \<Rightarrow> (Inl e, h2)
                     | Inr None \<Rightarrow> (Inr HNone, h2)
                     | Inr (Some h3) \<Rightarrow> (Inr modified_workflow, h3)))))"

text \<open>
  \<^verbatim>\<open>modify_comfyui_workflow_for_kontext(workflow_data, prompt, image_name, steps)\<close>:
  an exception is logged and None is returned.
\<close>

definition modify_comfyui_workflow_for_kontext ::
    "nat \<Rightarrow> heap \<Rightarrow> hval \<Rightarrow> hval \<Rightarrow> hval \<Rightarrow> hval \<Rightarrow> hval outcome \<times> heap" where
  "modify_comfyui_workflow_for_kontext fuel h workflow_data prompt image_name steps =
     (case deepcopy fuel workflow_data h [] of
        (None, h1, memo) \<Rightarrow> (CutOff, h1)
      | (Some modified_workflow, h1, memo) \<Rightarrow>
          (case patch_comfyui_workflow h1 modified_workflow prompt image_name steps of
             (Inl e, h2) \<Rightarrow> (Returned HNone, h2)
           | (Inr r, h2) \<Rightarrow> (Returned r, h2)))"

text \<open>
  The evaluation of a literal: the objects of a JSON-like value are created in the store,
  the parts before the whole. The other direction reads the value at an address back, to
  a bounded depth.
\<close>

fun alloc :: "json \<Rightarrow> heap \<Rightarrow> hval \<times> heap"
  and alloc_list :: "json list \<Rightarrow> heap \<Rightarrow> hval list \<times> heap"
  and alloc_items :: "(string \<times> json) list \<Rightarrow> heap \<Rightarrow> (string \<times> hval) list \<times> heap"
where
  "alloc JNull h = (HNone, h)"
| "alloc (JBool b) h = (HBool b, h)"
| "alloc (JInt i) h = (HInt i, h)"
| "alloc (JFloat f) h = (HFloat f, h)"
| "alloc (JStr s) h = (HStr s, h)"
| "alloc (JArr xs) h = (case alloc_list xs h of (vs, h') \<Rightarrow> (HRef (length h'), h' @ [HList vs]))"
| "alloc (JObj kvs) h = (case alloc_items kvs h of (items, h') \<Rightarrow> (HRef (length h'), h' @ [HDict items]))"
| "alloc_list [] h = ([], h)"
| "alloc_list (x # xs) h =
     (case alloc x h of (v, h') \<Rightarrow> (case alloc_list xs h' of (vs, h'') \<Rightarrow> (v # vs, h'')))"
| "alloc_items [] h = ([], h)"
| "alloc_items ((k, x) # kvs) h =
     (case alloc x h of (v, h') \<Rightarrow> (case alloc_items kvs h' of (items, h'') \<Rightarrow> ((k, v) # items, h'')))"

fun all_some :: "'a option list \<Rightarrow> 'a list option" where
  "all_some [] = Some []"
| "all_some (None # xs) = None"
| "all_some (Some x # xs) = map_option ((#) x) (all_some xs)"

primrec to_json :: "nat \<Rightarrow> heap \<Rightarrow> hval \<Rightarrow> json option" where
  "to_json 0 h v = None"
| "to_json (Suc depth) h v =
     (case v of
        HNone \<Rightarrow> Some JNull
      | HBool b \<Rightarrow> Some (JBool b)
      | HInt i \<Rightarrow> Some (JInt i)
      | HFloat f \<Rightarrow> Some (JFloat f)
      | HStr s \<Rightarrow> Some (JStr s)
      | HRef a \<Rightarrow>
          if a < length h then
            (case h ! a of
               HList xs \<Rightarrow> map_option JArr (all_some (map (to_json depth h) xs))
             | HDict kvs \<Rightarrow>
                 map_option (\<lambda>vs. JObj (zip (map fst kvs) vs))
                   (all_some (map (\<lambda>kv. to_json depth h (snd kv)) kvs)))
          else None)"

text \<open>
  The frame of a copy. A value is fresh from \<open>n\<close> when it is an atom or an address at
  or above \<open>n\<close>. A store is closed from \<open>n\<close> outside the keys \<open>K\<close> when the objects at
  or above \<open>n\<close> hold only fresh values, except under the dict keys in \<open>K\<close>.
\<close>

definition fresh :: "nat \<Rightarrow> hval \<Rightarrow> bool" where
  "fresh n v = (case v of HRef a \<Rightarrow> n \<le> a | _ \<Rightarrow> True)"

definition fresh_obj :: "nat \<Rightarrow> string set \<Rightarrow> hobj \<Rightarrow> bool" where
  "fresh_obj n K obj =
     (case obj of
        HDict kvs \<Rightarrow> (\<forall>(k, v) \<in> set kvs. k \<notin> K \<longrightarrow> fresh n v)
      | HList xs \<Rightarrow> (\<forall>v \<in> set xs. fresh n v))"

definition closed_from :: "nat \<Rightarrow> string set \<Rightarrow> heap \<Rightarrow> bool" where
  "closed_from n K h = (\<forall>i. n \<le> i \<and> i < length h \<longrightarrow> fresh_obj n K (h ! i))"

definition memo_ok :: "nat \<Rightarrow> memo \<Rightarrow> bool" where
  "memo_ok n memo = (\<forall>(a, y) \<in> set memo. n \<le> y)"

text \<open>
  What the loops of a copy need from the function that copies an item: it leaves the
  store below \<open>n\<close> as it is, and keeps the memo and the store closed.
\<close>

definition copy_ok ::
    "nat \<Rightarrow> (hval \<Rightarrow> heap \<Rightarrow> memo \<Rightarrow> hval option \<times> heap \<times> memo) \<Rightarrow> bool" where
  "copy_ok n copy =
     (\<forall>x h memo r h' memo'.
        copy x h memo = (r, h', memo') \<and> n \<le> length h \<and> memo_ok n memo \<and> closed_from n {} h \<longrightarrow>
          take n h' = take n h \<and> length h \<le> length h' \<and> memo_ok n memo' \<and> closed_from n {} h' \<and>
          (\<forall>v. r = Some v \<longrightarrow> fresh n v))"


section \<open>The image normalizer\<close>

text \<open>
  \<^verbatim>\<open>prepare_image_for_kontext\<close> and \<^verbatim>\<open>prepare_image_for_comfyui\<close> compute the
  scaled size in Python floats, which are IEEE 754 binary64 numbers: the quotient of two
  ints and the product of an int and a float are the exact results rounded to the
  nearest number with a 53-bit significand, ties to the even one. A float is modelled by
  the rational it denotes. The rounding below is that of the normal range (magnitudes
  between \<open>2\<^sup>-\<^sup>1\<^sup>0\<^sup>2\<^sup>2\<close> and \<open>2\<^sup>1\<^sup>0\<^sup>2\<^sup>4\<close>), which holds every quotient and
  product of image dimensions.
\<close>

text \<open>The number of binary digits of a positive integer.\<close>

function bit_length :: "int \<Rightarrow> nat" where
  "bit_length n = (if n \<le> 0 then 0 else Suc (bit_length (n div 2)))"
  by pat_completeness auto
termination
  by (relation "measure nat") auto

definition pow2 :: "int \<Rightarrow> rat" where
  "pow2 e = (if 0 \<le> e then 2 ^ nat e else 1 / 2 ^ nat (- e))"

text \<open>The exponent \<open>e\<close> with \<open>2\<^sup>e \<le> x < 2\<^sup>e\<^sup>+\<^sup>1\<close>, for a positive \<open>x\<close>.\<close>

definition exponent_of :: "rat \<Rightarrow> int" where
  "exponent_of x =
     (case quotient_of x of
        (p, q) \<Rightarrow>
          let e0 = int (bit_length p) - int (bit_length q)
          in if pow2 e0 \<le> x then e0 else e0 - 1)"

definition round_half_even :: "rat \<Rightarrow> int" where
  "round_half_even m =
     (let f = \<lfloor>m\<rfloor>; d = m - of_int f
      in if d < 1 / 2 then f
         else if 1 / 2 < d then f + 1
         else if even f then f else f + 1)"

definition round_to_double :: "rat \<Rightarrow> rat" where
  "round_to_double x =
     (if x = 0 then 0
      else let ulp = pow2 (exponent_of \<bar>x\<bar> - 52)
           in sgn x * of_int (round_half_even (\<bar>x\<bar> / ulp)) * ulp)"

text \<open>\<^verbatim>\<open>a / b\<close> on ints and \<^verbatim>\<open>n * x\<close> on an int and a float.\<close>

definition int_truediv :: "int \<Rightarrow> int \<Rightarrow> exn + rat" where
  "int_truediv a b =
     (if b = 0 then Inl ZeroDivisionError else Inr (round_to_double (of_int a / of_int b)))"

definition int_times_float :: "int \<Rightarrow> rat \<Rightarrow> rat" where
  "int_times_float n x = round_to_double (round_to_double (of_int n) * x)"

text \<open>
  The crop rectangle \<^verbatim>\<open>(left, top, right, bottom)\<close> for a scaled image of the size
  \<open>new_width\<close> by \<open>new_height\<close> (\<open>upper\<close> and \<open>lower\<close> are the source's
  \<^verbatim>\<open>top\<close> and \<^verbatim>\<open>bottom\<close>).
\<close>

definition crop_box :: "int \<Rightarrow> int \<Rightarrow> int \<Rightarrow> int \<Rightarrow> int \<times> int \<times> int \<times> int" where
  "crop_box new_width new_height target_width target_height =
     (let left = max 0 ((new_width - target_width) div 2);
          upper = max 0 ((new_height - target_height) div 2);
          right = min new_width (left + target_width);
          lower = min new_height (upper + target_height)
      in (left, upper, right, lower))"

text \<open>
  The geometry of both functions for a source image of the size \<open>img_width\<close> by
  \<open>img_height\<close>: the size of the scaled image, the crop rectangle and the size of the
  cropped image that is encoded or saved. \<^verbatim>\<open>Image.resize\<close> raises ValueError for a
  size that is not positive; every exception makes the functions return None.
\<close>

record geometry =
  scaled_size :: "int \<times> int"
  box :: "int \<times> int \<times> int \<times> int"
  output_size :: "int \<times> int"

definition normalize :: "int \<times> int \<Rightarrow> int \<Rightarrow> int \<Rightarrow> exn + geometry" where
  "normalize img_size target_width target_height =
     (case img_size of (img_width, img_height) \<Rightarrow>
        bindE (int_truediv target_width img_width) (\<lambda>sx.
        bindE (int_truediv target_height img_height) (\<lambda>sy.
          let scale = max sx sy;
              new_width = trunc (int_times_float img_width scale);
              new_height = trunc (int_times_float img_height scale)
          in if new_width \<le> 0 \<or> new_height \<le> 0 then Inl ValueError
             else
               (case crop_box new_width new_height target_width target_height of
                  (left, upper, right, lower) \<Rightarrow>
                    Inr \<lparr> scaled_size = (new_width, new_height),
                          box = (left, upper, right, lower),
                          output_size = (right - left, lower - upper) \<rparr>))))"

definition prepare_image_for_kontext :: "int \<times> int \<Rightarrow> int \<Rightarrow> int \<Rightarrow> geometry option" where
  "prepare_image_for_kontext img_size target_width target_height =
     (case normalize img_size target_width target_height of Inl e \<Rightarrow> None | Inr g \<Rightarrow> Some g)"

definition prepare_image_for_comfyui :: "int \<times> int \<Rightarrow> int \<Rightarrow> int \<Rightarrow> geometry option" where
  "prepare_image_for_comfyui img_size target_width target_height =
     (case normalize img_size target_width target_height of Inl e \<Rightarrow> None | Inr g \<Rightarrow> Some g)"

section \<open>Sample values\<close>

text \<open>
  A library instance, a process state and two handlers on which the theorems below are
  instantiated. In the sample state the output directory exists but cannot be written, and
  there is no configuration file.
\<close>

definition demo_lib :: pylib where
  "demo_lib = \<lparr> str_of = (\<lambda>v. ''<value>''),
                json_dumps = (\<lambda>v. if v = JNull then ''null'' else ''<json>''),
                int_of_str = (\<lambda>s. if s = ''30'' then Some 30 else None),
                str_upper = (\<lambda>s. s),
                exn_text = (\<lambda>e. ''<exception>'') \<rparr>"

definition demo_world :: world where
  "demo_world = \<lparr> GALLERY_DIRECTORY = JStr ''C:/shots'',
                  NVIDIA_API_KEY = JNull,
                  NGC_API_KEY = JNull,
                  HF_TOKEN = JNull,
                  LOCAL_NIM_CACHE = JNull,
                  OUTPUT_DIRECTORY = JStr ''C:/flux_output'',
                  FLUX_NIM_URL = JNull,
                  INVOKEAI_URL = JStr ''http://localhost:9090'',
                  FLUX_KONTEXT_NIM_URL = JStr ''http://localhost:8011'',
                  COMFYUI_URL = JStr ''http://localhost:8188'',
                  FLUX_KONTEXT_INFERENCE_BACKEND = JStr ''NIM'',
                  BOARD_ID = JNull,
                  config_file = FileNotFound,
                  makedirs_raises = (\<lambda>d. None),
                  write_test_raises = (\<lambda>d. Some PermissionError),
                  threads = [],
                  requests = [] \<rparr>"

definition demo_handlers :: "string \<Rightarrow> handler" where
  "demo_handlers name = (\<lambda>params context system_info w.
      Inr (generate_success_response (JStr name), w\<lparr>requests := requests w @ [name]\<rparr>))"

definition demo_frame :: "(string \<times> json) list" where
  "demo_frame = [(''messages'', JArr []),
                 (''tool_calls'', JArr [JObj [(''func'', JStr ''comfyui_status'')],
                                        JObj [(''func'', JStr ''make_coffee'')]])]"

definition demo_frame_no_func :: "(string \<times> json) list" where
  "demo_frame_no_func = [(''tool_calls'', JArr [JObj [(''func'', JStr ''comfyui_status'')],
                                               JObj [(''params'', JObj [])]])]"

text \<open>A frame whose first tool call is unknown and whose second one is in the table.\<close>

definition demo_frame_known_last :: "(string \<times> json) list" where
  "demo_frame_known_last =
     [(''tool_calls'', JArr [JObj [(''func'', JStr ''make_coffee'')],
                             JObj [(''func'', JStr ''comfyui_status'')]])]"


text \<open>
  \<^verbatim>\<open>bytes.decode("utf-8")\<close> on the byte strings whose bytes are below C0 or are the
  lead byte C3: an ASCII byte is its character, the lead byte C3 with a continuation byte
  (80 to BF) is one of the characters U+00C0 to U+00FF, and a continuation byte without
  a lead byte, or the lead byte without a continuation byte, is an error. The other lead
  bytes are refused.
\<close>

fun demo_decode :: "bytes \<Rightarrow> string option" where
  "demo_decode [] = Some []"
| "demo_decode [b] = (if of_char b < (128::nat) then Some [b] else None)"
| "demo_decode (b # c # bs) =
     (if of_char b < (128::nat) then map_option ((#) b) (demo_decode (c # bs))
      else if b = CHR 0xC3 \<and> (128::nat) \<le> of_char c \<and> of_char c < (192::nat)
      then map_option ((#) (char_of (of_char c + (64::nat)))) (demo_decode bs)
      else None)"

definition demo_loads :: "string \<Rightarrow> json option" where
  "demo_loads s = (if s = ''{}'' then Some (JObj []) else None)"

text \<open>
  A frame of 4099 bytes: a JSON list of one string, which is 4093 letters x and the
  character U+00E9. The two bytes C3 A9 of that character lie on both sides of the end of
  the first buffer: the first read fills the buffer, the second delivers the last three
  bytes.
\<close>

definition demo_full_chunk :: bytes where
  "demo_full_chunk = CHR ''['' # CHR 0x22 # replicate 4093 (CHR ''x'') @ [CHR 0xC3]"

definition demo_short_chunk :: bytes where
  "demo_short_chunk = [CHR 0xA9, CHR 0x22, CHR '']'']"

text \<open>
  A session of the streaming backend with prompt id \<^verbatim>\<open>p1\<close>: the stream reports a
  node, delivers one binary frame and then the completion event; the history lists three
  images, of which the second cannot be fetched.
\<close>

definition demo_ws_loads :: "string \<Rightarrow> json option" where
  "demo_ws_loads s =
     (if s = ''done''
      then Some (JObj [(''type'', JStr ''executing''),
                       (''data'', JObj [(''node'', JNull), (''prompt_id'', JStr ''p1'')])])
      else if s = ''step''
      then Some (JObj [(''type'', JStr ''executing''),
                       (''data'', JObj [(''node'', JStr ''21''), (''prompt_id'', JStr ''p1'')])])
      else if s = ''bad'' then Some (JArr [])
      else None)"

definition demo_descriptor :: "string \<Rightarrow> json" where
  "demo_descriptor name = JObj [(''filename'', JStr name), (''subfolder'', JStr []), (''type'', JStr ''output'')]"

definition demo_history :: json where
  "demo_history =
     JObj [(''p1'', JObj [(''outputs'', JObj [(''1'', JObj [(''images'',
        JArr [demo_descriptor ''a.png'', demo_descriptor ''b.png'', demo_descriptor ''c.png''])])])])]"

definition demo_env :: comfy_env where
  "demo_env = \<lparr> client_id = ''c1'',
                post_prompt = HttpResponse 200 (Some (JObj [(''prompt_id'', JStr ''p1'')])),
                ws_connect_raises = None,
                ticks = [(0, RecvText ''step''), (1000000, RecvBinary ''PNG''), (2000000, RecvText ''done'')],
                get_history = HttpResponse 200 (Some demo_history),
                get_view = (\<lambda>i u. if i = 1 then FetchRaises ConnectionError
                                   else FetchResponse 200 (''IMAGE '' @ u)) \<rparr>"

definition demo_url :: string where
  "demo_url = ''http://localhost:8188''"

definition demo_plan :: "planned_fetch list" where
  "demo_plan =
     [\<lparr> pf_descriptor = demo_descriptor ''a.png'',
         pf_url = ''http://localhost:8188/view?filename=a.png&type=output&subfolder='',
         pf_status = 200, pf_content = ''A'' \<rparr>,
      \<lparr> pf_descriptor = demo_descriptor ''b.png'',
         pf_url = ''http://localhost:8188/view?filename=b.png&type=output&subfolder='',
         pf_status = 404, pf_content = [] \<rparr>,
      \<lparr> pf_descriptor = demo_descriptor ''c.png'',
         pf_url = ''http://localhost:8188/view?filename=c.png&type=output&subfolder='',
         pf_status = 200, pf_content = ''C'' \<rparr>]"

definition demo_view_all :: "nat \<Rightarrow> string \<Rightarrow> fetch_result" where
  "demo_view_all i u =
     (if i = 1 then FetchResponse 404 [] else FetchResponse 200 (if i = 0 then ''A'' else ''C''))"

text \<open>
  The two nodes of \<^verbatim>\<open>COMFYUI_FLUX_KONTEXT_WORKFLOW\<close> that
  \<^verbatim>\<open>modify_comfyui_workflow_for_kontext\<close> patches, with the inputs it touches.
\<close>

definition demo_workflow :: json where
  "demo_workflow =
     JObj [
       (''11'', JObj [
          (''inputs'', JObj [(''image'', JStr ''552ed252-7ea7-495f-98e6-2d11c992c8ac.png'')]),
          (''class_type'', JStr ''LoadImage'')]),
       (''21'', JObj [
          (''inputs'', JObj [
             (''prompt'', JStr ''make into into fine Chinese porcelain blue and white''),
             (''steps'', JInt 20),
             (''image'', JArr [JStr ''16'', JInt 0])]),
          (''class_type'', JStr ''NIMFLUXNode'')])]"

section \<open>Basic facts\<close>

lemma bindE_Inr [simp]: "bindE (Inr x) f = f x"
  by (simp add: bindE_def)

lemma bindE_Inl [simp]: "bindE (Inl e) f = Inl e"
  by (simp add: bindE_def)

lemma map_of_key: "map_of kvs k = Some v \<Longrightarrow> k \<in> fst ` set kvs"
  by (metis map_of_eq_None_iff option.distinct(1))

lemma get_or_none_JObj:
  "get_or_none (JObj kvs) k = Inr (case map_of kvs k of None \<Rightarrow> JNull | Some v \<Rightarrow> v)"
  by (auto simp: get_or_none_def map_of_eq_None_iff split: option.splits dest: map_of_key)

lemma demo_gallery: "GALLERY_DIRECTORY demo_world = JStr ''C:/shots''"
  by (simp add: demo_world_def)

lemma demo_requests: "requests demo_world = []"
  by (simp add: demo_world_def)

lemma demo_dumps: "json_dumps demo_lib v = (if v = JNull then ''null'' else ''<json>'')"
  by (simp add: demo_lib_def)

lemma demo_validate: "validate_output_directory demo_world = Inr False"
  by (simp add: validate_output_directory_def demo_world_def is_OSError_def)

lemma demo_init:
  "execute_initialize_command demo_world =
     Inr (JObj [(''success'', JBool True),
                (''message'', JStr ''initialize success. Plugin initialized with warnings: OUTPUT_DIRECTORY configuration is invalid'')])"
  by (simp add: execute_initialize_command_def demo_validate generate_success_response_def demo_gallery)

lemma demo_status_step:
  "tool_call_step demo_lib demo_handlers (JObj fr) (JObj [(''func'', JStr ''comfyui_status'')])
       (c, r, demo_world) =
     Inr (JStr ''comfyui_status'',
          JObj [(''success'', JBool True), (''message'', JStr ''comfyui_status'')],
          demo_world\<lparr>requests := [''comfyui_status'']\<rparr>)"
  by (simp add: tool_call_step_def in_commands_def command_names_def demo_init get_or_none_JObj
      commands_def demo_handlers_def generate_success_response_def demo_requests)

section \<open>The steps parameter of the conditioned-generation command\<close>

lemma load_config_effects:
  "threads (load_config w) = threads w \<and> requests (load_config w) = requests w"
  by (simp add: load_config_def split: config_source.splits json.splits)

lemma kontext_failure:
  assumes "map_of ps ''steps'' = Some v" "\<forall>n. py_int L v = Inr n \<longrightarrow> n < 20 \<or> 50 < n"
  shows "\<exists>m w'. generate_image_using_kontext L (JObj ps) context system_info w =
            (JObj [(''success'', JBool False), (''message'', JStr m)], w') \<and>
            threads w' = threads (load_config w) \<and> requests w' = requests (load_config w)"
proof -
  have ne: "ps \<noteq> []" using assms(1) by auto
  show ?thesis
  proof (cases "py_int L v")
    case (Inl e)
    then show ?thesis using assms(1) ne
      by (auto simp: generate_image_using_kontext_def kontext_try_def generate_failure_response_def
          split: option.splits)
  next
    case (Inr n)
    then have "n < 20 \<or> 50 < n" using assms(2) by simp
    then show ?thesis using assms(1) ne Inr
      by (auto simp: generate_image_using_kontext_def kontext_try_def generate_failure_response_def
          split: option.splits)
  qed
qed

text \<open>
  Claim C1, as the code has it. \<^verbatim>\<open>generate_image_using_kontext\<close> converts the
  \<^verbatim>\<open>steps\<close> value with \<^verbatim>\<open>int()\<close>. Whenever the params contain a \<^verbatim>\<open>steps\<close>
  value that \<^verbatim>\<open>int()\<close> rejects, or whose conversion lies outside 20..50, the handler
  returns a failure envelope with a message, and it has started no thread and sent no
  request: the threads and requests of the process are those before the call.
\<close>

theorem kontext_rejects_bad_steps:
  assumes "map_of ps ''steps'' = Some v"
    and "\<forall>n. py_int L v = Inr n \<longrightarrow> n < 20 \<or> 50 < n"
  shows "\<exists>m w'. generate_image_using_kontext L (JObj ps) context system_info w =
            (JObj [(''success'', JBool False), (''message'', JStr m)], w') \<and>
            threads w' = threads w \<and> requests w' = requests w"
  using kontext_failure [OF assms] load_config_effects by metis

theorem kontext_rejects_bad_steps_witness:
  "map_of [(''prompt'', JStr ''snow''), (''steps'', JInt 51)] ''steps'' = Some (JInt 51) \<and>
   py_int demo_lib (JInt 51) = Inr 51 \<and>
   (\<exists>m w'. generate_image_using_kontext demo_lib
              (JObj [(''prompt'', JStr ''snow''), (''steps'', JInt 51)]) JNull JNull demo_world =
            (JObj [(''success'', JBool False), (''message'', JStr m)], w') \<and>
            threads w' = threads demo_world \<and> requests w' = requests demo_world)"
  using kontext_rejects_bad_steps
          [of "[(''prompt'', JStr ''snow''), (''steps'', JInt 51)]" "JInt 51" demo_lib JNull JNull demo_world]
  by simp

text \<open>
  Claim C1 as stated fails: the value 50.5 is not an integer and lies outside 20..50, yet
  \<^verbatim>\<open>int(50.5)\<close> is 50, so the handler starts the worker thread with 50 steps and
  returns a success envelope.
\<close>

theorem kontext_accepts_fractional_steps:
  "fst (generate_image_using_kontext demo_lib (JObj [(''steps'', JFloat (Fin (101 / 2)))])
          JNull JNull demo_world) =
     JObj [(''success'', JBool True),
           (''message'', JStr ''Your Flux Kontext NIM generation request is in progress! Using screenshot from: C:/shots'')] \<and>
   threads (snd (generate_image_using_kontext demo_lib (JObj [(''steps'', JFloat (Fin (101 / 2)))])
                   JNull JNull demo_world)) =
     [Thread ''generate_image_using_kontext_nim_worker''
        [JStr ''C:/shots'', JStr ''http://localhost:8011'', JStr [], JInt 50]]"
proof -
  have "\<lfloor>101 / 2 :: rat\<rfloor> = 50"
    by (rule floor_unique) simp_all
  then show ?thesis
    by (simp add: generate_image_using_kontext_def kontext_try_def kontext_dispatch_def
        load_config_def demo_world_def demo_lib_def trunc_def py_upper_def
        generate_success_response_def progress_message_def start_thread_def fmt_def)
qed

section \<open>The command router\<close>

lemma tool_calls_loop_append:
  "tool_calls_loop L H input (xs @ ys) st =
     bindE (tool_calls_loop L H input xs st) (tool_calls_loop L H input ys)"
  by (induction xs arbitrary: st) (auto simp: bindE_def split: sum.splits)

lemma step_unknown:
  assumes "map_of tc ''func'' = Some (JStr name)" "name \<notin> set command_names"
  shows "tool_call_step L H input (JObj tc) (c, r, w) =
           Inr (JStr name,
                generate_failure_response (JStr (''Plugin Error! Unknown command: '' @ name)), w)"
  using assms map_of_key[OF assms(1)]
  by (simp add: tool_call_step_def in_commands_def fmt_def)

lemma step_no_func:
  assumes "map_of tc ''func'' = None"
  shows "tool_call_step L H input (JObj tc) (c, r, w) =
           Inr (c, generate_failure_response (JStr ''Plugin Error! Malformed input.''), w)"
  using assms by (simp add: tool_call_step_def map_of_eq_None_iff)

lemma tool_call_step_response_unused:
  "tool_call_step L H input tc (c, r, w) = tool_call_step L H input tc (c, r', w)"
  by (simp add: tool_call_step_def)

lemma main_body_one_write:
  assumes "main_body L H input (c0, w, out) = Inr (c, w', out')"
  shows "\<exists>response. out' = out @ [json_dumps L response @ ''<<END>>'']"
  using assms
  by (auto simp: main_body_def bindE_def write_response_def split: sum.splits if_splits prod.splits)

lemma main_body_last_call:
  assumes "map_of frame ''tool_calls'' = Some (JArr (pre @ [last_call]))"
    and "tool_calls_loop L H (JObj frame) pre (c0, JNull, w) = Inr (c1, r1, w1)"
    and "tool_call_step L H (JObj frame) last_call (c1, r1, w1) = Inr (c2, r2, w2)"
  shows "main_body L H (JObj frame) (c0, w, out) = Inr (c2, w2, out @ [json_dumps L r2 @ ''<<END>>''])"
  using assms map_of_key[OF assms(1)]
  by (simp add: main_body_def tool_calls_loop_append write_response_def)

text \<open>
  Claim C7, as the code has it. A frame is a JSON object and its \<^verbatim>\<open>tool_calls\<close> field is a list
  whose calls before the last one have been processed without an exception (to the
  command \<open>c1\<close> and the state \<open>w1\<close>). If the last tool call names a function \<open>name\<close>
  that is not in the command table, \<^verbatim>\<open>main\<close> writes the envelope with
  \<^verbatim>\<open>success\<close> false and the message \<^verbatim>\<open>Plugin Error! Unknown command: name\<close>.
  If the last tool call has no \<^verbatim>\<open>func\<close> field, or the frame has no
  \<^verbatim>\<open>tool_calls\<close> field, it writes the envelope with \<^verbatim>\<open>success\<close> false and the
  fixed message \<^verbatim>\<open>Plugin Error! Malformed input.\<close> For a tool call at any position
  the router sets its variable \<^verbatim>\<open>response\<close> to that envelope; only the value left
  by the last tool call is written.
\<close>

theorem router_failure_envelopes:
  "(map_of frame ''tool_calls'' = Some (JArr (pre @ [JObj tc])) \<and>
    tool_calls_loop L H (JObj frame) pre (c0, JNull, w) = Inr (c1, r1, w1) \<and>
    map_of tc ''func'' = Some (JStr name) \<and> name \<notin> set command_names \<longrightarrow>
      main_body L H (JObj frame) (c0, w, out) =
        Inr (JStr name, w1,
             out @ [json_dumps L (JObj [(''success'', JBool False),
                      (''message'', JStr (''Plugin Error! Unknown command: '' @ name))]) @ ''<<END>>''])) \<and>
   (map_of frame ''tool_calls'' = Some (JArr (pre @ [JObj tc])) \<and>
    tool_calls_loop L H (JObj frame) pre (c0, JNull, w) = Inr (c1, r1, w1) \<and>
    map_of tc ''func'' = None \<longrightarrow>
      main_body L H (JObj frame) (c0, w, out) =
        Inr (c1, w1,
             out @ [json_dumps L (JObj [(''success'', JBool False),
                      (''message'', JStr ''Plugin Error! Malformed input.'')]) @ ''<<END>>''])) \<and>
   (map_of frame ''tool_calls'' = None \<longrightarrow>
      main_body L H (JObj frame) (c0, w, out) =
        Inr (c0, w,
             out @ [json_dumps L (JObj [(''success'', JBool False),
                      (''message'', JStr ''Plugin Error! Malformed input.'')]) @ ''<<END>>''])) \<and>
   (map_of tc ''func'' = Some (JStr name) \<and> name \<notin> set command_names \<longrightarrow>
      tool_call_step L H input (JObj tc) (c, r, ws) =
        Inr (JStr name,
             JObj [(''success'', JBool False),
                   (''message'', JStr (''Plugin Error! Unknown command: '' @ name))], ws)) \<and>
   (map_of tc ''func'' = None \<longrightarrow>
      tool_call_step L H input (JObj tc) (c, r, ws) =
        Inr (c, JObj [(''success'', JBool False),
                      (''message'', JStr ''Plugin Error! Malformed input.'')], ws))"
proof (intro conjI impI)
  assume a: "map_of frame ''tool_calls'' = Some (JArr (pre @ [JObj tc])) \<and>
    tool_calls_loop L H (JObj frame) pre (c0, JNull, w) = Inr (c1, r1, w1) \<and>
    map_of tc ''func'' = Some (JStr name) \<and> name \<notin> set command_names"
  then have "tool_call_step L H (JObj frame) (JObj tc) (c1, r1, w1) =
      Inr (JStr name, generate_failure_response (JStr (''Plugin Error! Unknown command: '' @ name)), w1)"
    by (simp add: step_unknown)
  with a show "main_body L H (JObj frame) (c0, w, out) =
        Inr (JStr name, w1,
             out @ [json_dumps L (JObj [(''success'', JBool False),
                      (''message'', JStr (''Plugin Error! Unknown command: '' @ name))]) @ ''<<END>>''])"
    using main_body_last_call [of frame pre "JObj tc" L H c0 w c1 r1 w1]
    by (simp add: generate_failure_response_def)
next
  assume a: "map_of frame ''tool_calls'' = Some (JArr (pre @ [JObj tc])) \<and>
    tool_calls_loop L H (JObj frame) pre (c0, JNull, w) = Inr (c1, r1, w1) \<and>
    map_of tc ''func'' = None"
  then have "tool_call_step L H (JObj frame) (JObj tc) (c1, r1, w1) =
      Inr (c1, generate_failure_response (JStr ''Plugin Error! Malformed input.''), w1)"
    by (simp add: step_no_func)
  with a show "main_body L H (JObj frame) (c0, w, out) =
        Inr (c1, w1,
             out @ [json_dumps L (JObj [(''success'', JBool False),
                      (''message'', JStr ''Plugin Error! Malformed input.'')]) @ ''<<END>>''])"
    using main_body_last_call [of frame pre "JObj tc" L H c0 w c1 r1 w1]
    by (simp add: generate_failure_response_def)
next
  assume "map_of frame ''tool_calls'' = None"
  then show "main_body L H (JObj frame) (c0, w, out) =
        Inr (c0, w,
             out @ [json_dumps L (JObj [(''success'', JBool False),
                      (''message'', JStr ''Plugin Error! Malformed input.'')]) @ ''<<END>>''])"
    by (simp add: main_body_def map_of_eq_None_iff write_response_def generate_failure_response_def)
next
  assume "map_of tc ''func'' = Some (JStr name) \<and> name \<notin> set command_names"
  then show "tool_call_step L H input (JObj tc) (c, r, ws) =
        Inr (JStr name,
             JObj [(''success'', JBool False),
                   (''message'', JStr (''Plugin Error! Unknown command: '' @ name))], ws)"
    by (simp add: step_unknown generate_failure_response_def)
next
  assume "map_of tc ''func'' = None"
  then show "tool_call_step L H input (JObj tc) (c, r, ws) =
        Inr (c, JObj [(''success'', JBool False),
                      (''message'', JStr ''Plugin Error! Malformed input.'')], ws)"
    by (simp add: step_no_func generate_failure_response_def)
qed

theorem router_failure_envelopes_witness:
  "main_body demo_lib demo_handlers (JObj demo_frame) (JStr [], demo_world, []) =
     Inr (JStr ''make_coffee'', demo_world\<lparr>requests := [''comfyui_status'']\<rparr>, [''<json><<END>>'']) \<and>
   main_body demo_lib demo_handlers (JObj demo_frame_no_func) (JStr [], demo_world, []) =
     Inr (JStr ''comfyui_status'', demo_world\<lparr>requests := [''comfyui_status'']\<rparr>, [''<json><<END>>'']) \<and>
   main_body demo_lib demo_handlers (JObj [(''messages'', JArr [])]) (JStr [], demo_world, []) =
     Inr (JStr [], demo_world, [''<json><<END>>'']) \<and>
   tool_call_step demo_lib demo_handlers JNull (JObj [(''func'', JStr ''make_coffee'')])
       (JStr [], JNull, demo_world) =
     Inr (JStr ''make_coffee'',
          JObj [(''success'', JBool False),
                (''message'', JStr ''Plugin Error! Unknown command: make_coffee'')], demo_world) \<and>
   tool_call_step demo_lib demo_handlers JNull (JObj [(''params'', JObj [])])
       (JStr [], JNull, demo_world) =
     Inr (JStr [],
          JObj [(''success'', JBool False), (''message'', JStr ''Plugin Error! Malformed input.'')],
          demo_world)"
  using router_failure_envelopes
          [of demo_frame "[JObj [(''func'', JStr ''comfyui_status'')]]"
              "[(''func'', JStr ''make_coffee'')]" demo_lib demo_handlers "JStr []" demo_world
              "JStr ''comfyui_status''"
              "JObj [(''success'', JBool True), (''message'', JStr ''comfyui_status'')]"
              "demo_world\<lparr>requests := [''comfyui_status'']\<rparr>" "''make_coffee''" "[]"
              JNull "JStr []" JNull demo_world]
        router_failure_envelopes
          [of demo_frame_no_func "[JObj [(''func'', JStr ''comfyui_status'')]]"
              "[(''params'', JObj [])]" demo_lib demo_handlers "JStr []" demo_world
              "JStr ''comfyui_status''"
              "JObj [(''success'', JBool True), (''message'', JStr ''comfyui_status'')]"
              "demo_world\<lparr>requests := [''comfyui_status'']\<rparr>" "''make_coffee''" "[]"
              JNull "JStr []" JNull demo_world]
        router_failure_envelopes
          [of "[(''messages'', JArr [])]" "[]" "[]" demo_lib demo_handlers "JStr []" demo_world
              "JStr []" JNull demo_world "''make_coffee''" "[]" JNull "JStr []" JNull demo_world]
  by (simp add: demo_frame_def demo_frame_no_func_def demo_status_step command_names_def demo_dumps)

text \<open>
  Claim C7 as stated fails. In the frame \<open>demo_frame_known_last\<close> the first tool call
  names the unknown function \<^verbatim>\<open>make_coffee\<close> and the second one the command
  \<^verbatim>\<open>comfyui_status\<close>: the failure envelope of the first call is overwritten and
  \<^verbatim>\<open>main\<close> writes the success envelope of the handler, so that no response names
  the unknown command. A frame that is the number 5 has no \<^verbatim>\<open>tool_calls\<close> field:
  the test \<^verbatim>\<open>"tool_calls" in input\<close> raises TypeError and nothing is written.
\<close>

theorem unknown_command_overwritten:
  "main_body demo_lib demo_handlers (JObj demo_frame_known_last) (JStr [], demo_world, []) =
     Inr (JStr ''comfyui_status'', demo_world\<lparr>requests := [''comfyui_status'']\<rparr>,
          [json_dumps demo_lib
             (JObj [(''success'', JBool True), (''message'', JStr ''comfyui_status'')]) @ ''<<END>>'']) \<and>
   main_body demo_lib demo_handlers (JInt 5) (JStr [], demo_world, []) = Inl TypeError"
  by (simp add: main_body_def demo_frame_known_last_def write_response_def step_unknown
      demo_status_step command_names_def)

text \<open>
  Over a run of \<^verbatim>\<open>main\<close>, the messages written are at most one per frame that was
  decoded to a value other than \<^verbatim>\<open>None\<close>.
\<close>

lemma main_loop_writes:
  "\<exists>responses. snd (main_loop L H frames (cmd, w, out)) = out @ responses \<and>
      length responses \<le> length (filter (\<lambda>f. f \<noteq> None \<and> f \<noteq> Some JNull) frames)"
proof (induction frames arbitrary: cmd w out)
  case Nil
  then show ?case by simp
next
  case (Cons f frames)
  show ?case
  proof (cases "cmd = JStr ''shutdown''")
    case True
    then show ?thesis by simp
  next
    case running: False
    show ?thesis
    proof (cases "f = None \<or> f = Some JNull")
      case True
      then show ?thesis using Cons.IH [of cmd w out] running by auto
    next
      case False
      then obtain input where f: "f = Some input" "input \<noteq> JNull" by (cases f) auto
      show ?thesis
      proof (cases "main_body L H input (cmd, w, out)")
        case (Inl e)
        then show ?thesis using f running by simp
      next
        case (Inr st)
        obtain cmd' w' out' where st: "st = (cmd', w', out')" by (cases st)
        from main_body_one_write [OF Inr [unfolded st]]
        obtain response where o: "out' = out @ [json_dumps L response @ ''<<END>>'']" by blast
        show ?thesis
        proof (cases "cmd' = JStr ''shutdown''")
          case True
          then show ?thesis using f running Inr st o by simp
        next
          case False
          from Cons.IH [of cmd' w' out'] obtain responses where
              r: "snd (main_loop L H frames (cmd', w', out')) = out' @ responses"
                 "length responses \<le> length (filter (\<lambda>f. f \<noteq> None \<and> f \<noteq> Some JNull) frames)"
            by blast
          have "snd (main_loop L H (f # frames) (cmd, w, out)) =
                  out @ (json_dumps L response @ ''<<END>>'') # responses"
            using f running Inr st False r(1) o by simp
          moreover have "length ((json_dumps L response @ ''<<END>>'') # responses) \<le>
                  length (filter (\<lambda>f. f \<noteq> None \<and> f \<noteq> Some JNull) (f # frames))"
            using r(2) f by simp
          ultimately show ?thesis by blast
        qed
      qed
    qed
  qed
qed

lemma main_loop_answers:
  assumes "c0 \<noteq> JStr ''shutdown''" "input \<noteq> JNull"
    "main_body L H input (c0, w, out) = Inr (c, w', out')"
  shows "main_loop L H (Some input # frames) (c0, w, out) =
           (if c = JStr ''shutdown'' then (Stopped, out') else main_loop L H frames (c, w', out'))"
  using assms by simp

lemma main_loop_crashes:
  assumes "c0 \<noteq> JStr ''shutdown''" "input \<noteq> JNull" "main_body L H input (c0, w, out) = Inl e"
  shows "main_loop L H (Some input # frames) (c0, w, out) = (Crashed e, out)"
  using assms by simp

lemma main_loop_skips:
  assumes "c0 \<noteq> JStr ''shutdown''"
  shows "main_loop L H (None # frames) (c0, w, out) = main_loop L H frames (c0, w, out) \<and>
         main_loop L H (Some JNull # frames) (c0, w, out) = main_loop L H frames (c0, w, out)"
  using assms by simp

text \<open>
  Claim C9, as the code has it. For a frame that decodes to a value other than \<^verbatim>\<open>None\<close> and that
  \<^verbatim>\<open>main\<close> processes without an exception, the output pipe receives exactly one
  message more, a serialised response and the terminator; \<^verbatim>\<open>main\<close> then stops if
  the command is \<^verbatim>\<open>shutdown\<close> and goes on with the next frame otherwise. When the
  \<^verbatim>\<open>tool_calls\<close> list ends with the call \<open>last_call\<close>, the response written is the
  one produced for \<open>last_call\<close>, whatever response \<open>r\<close> the earlier calls had produced.
  When the list is empty, the message is the serialisation of \<^verbatim>\<open>None\<close>. A frame
  whose processing raises an exception ends \<^verbatim>\<open>main\<close> with nothing written for it. A
  frame that could not be read or decoded, or that decodes to \<^verbatim>\<open>None\<close>, is skipped
  with nothing written. Over a run, the messages written are at most one per frame
  decoded to a value other than \<^verbatim>\<open>None\<close>.
\<close>

theorem one_response_per_frame:
  "(main_body L H input (c0, w, out) = Inr (c, w', out') \<longrightarrow>
      (\<exists>response. out' = out @ [json_dumps L response @ ''<<END>>''])) \<and>
   (map_of frame ''tool_calls'' = Some (JArr (pre @ [last_call])) \<and>
    tool_calls_loop L H (JObj frame) pre (c0, JNull, w) = Inr (c1, r1, w1) \<and>
    tool_call_step L H (JObj frame) last_call (c1, r1, w1) = Inr (c2, r2, w2) \<longrightarrow>
      main_body L H (JObj frame) (c0, w, out) = Inr (c2, w2, out @ [json_dumps L r2 @ ''<<END>>'']) \<and>
      (\<forall>r. tool_call_step L H (JObj frame) last_call (c1, r, w1) = Inr (c2, r2, w2))) \<and>
   (map_of frame ''tool_calls'' = Some (JArr []) \<longrightarrow>
      main_body L H (JObj frame) (c0, w, out) = Inr (c0, w, out @ [json_dumps L JNull @ ''<<END>>''])) \<and>
   (c0 \<noteq> JStr ''shutdown'' \<and> input \<noteq> JNull \<and>
    main_body L H input (c0, w, out) = Inr (c, w', out') \<longrightarrow>
      main_loop L H (Some input # frames) (c0, w, out) =
        (if c = JStr ''shutdown'' then (Stopped, out') else main_loop L H frames (c, w', out'))) \<and>
   (c0 \<noteq> JStr ''shutdown'' \<and> input \<noteq> JNull \<and>
    main_body L H input (c0, w, out) = Inl e \<longrightarrow>
      main_loop L H (Some input # frames) (c0, w, out) = (Crashed e, out)) \<and>
   (c0 \<noteq> JStr ''shutdown'' \<longrightarrow>
      main_loop L H (None # frames) (c0, w, out) = main_loop L H frames (c0, w, out) \<and>
      main_loop L H (Some JNull # frames) (c0, w, out) = main_loop L H frames (c0, w, out)) \<and>
   (\<exists>responses. snd (main_loop L H frames (c0, w, out)) = out @ responses \<and>
      length responses \<le> length (filter (\<lambda>f. f \<noteq> None \<and> f \<noteq> Some JNull) frames))"
proof (intro conjI impI)
  assume "main_body L H input (c0, w, out) = Inr (c, w', out')"
  then show "\<exists>response. out' = out @ [json_dumps L response @ ''<<END>>'']"
    by (rule main_body_one_write)
next
  assume a: "map_of frame ''tool_calls'' = Some (JArr (pre @ [last_call])) \<and>
    tool_calls_loop L H (JObj frame) pre (c0, JNull, w) = Inr (c1, r1, w1) \<and>
    tool_call_step L H (JObj frame) last_call (c1, r1, w1) = Inr (c2, r2, w2)"
  then show "main_body L H (JObj frame) (c0, w, out) = Inr (c2, w2, out @ [json_dumps L r2 @ ''<<END>>''])"
    using main_body_last_call by blast
  from a show "\<forall>r. tool_call_step L H (JObj frame) last_call (c1, r, w1) = Inr (c2, r2, w2)"
    using tool_call_step_response_unused by metis
next
  assume "map_of frame ''tool_calls'' = Some (JArr [])"
  then show "main_body L H (JObj frame) (c0, w, out) = Inr (c0, w, out @ [json_dumps L JNull @ ''<<END>>''])"
    using map_of_key[of frame "''tool_calls''"]
    by (simp add: main_body_def write_response_def)
next
  assume "c0 \<noteq> JStr ''shutdown'' \<and> input \<noteq> JNull \<and>
    main_body L H input (c0, w, out) = Inr (c, w', out')"
  then show "main_loop L H (Some input # frames) (c0, w, out) =
        (if c = JStr ''shutdown'' then (Stopped, out') else main_loop L H frames (c, w', out'))"
    using main_loop_answers by blast
next
  assume "c0 \<noteq> JStr ''shutdown'' \<and> input \<noteq> JNull \<and> main_body L H input (c0, w, out) = Inl e"
  then show "main_loop L H (Some input # frames) (c0, w, out) = (Crashed e, out)"
    using main_loop_crashes by blast
next
  assume "c0 \<noteq> JStr ''shutdown''"
  then show "main_loop L H (None # frames) (c0, w, out) = main_loop L H frames (c0, w, out)"
    and "main_loop L H (Some JNull # frames) (c0, w, out) = main_loop L H frames (c0, w, out)"
    using main_loop_skips by blast+
next
  show "\<exists>responses. snd (main_loop L H frames (c0, w, out)) = out @ responses \<and>
      length responses \<le> length (filter (\<lambda>f. f \<noteq> None \<and> f \<noteq> Some JNull) frames)"
    by (rule main_loop_writes)
qed

lemma demo_frame_body:
  "main_body demo_lib demo_handlers (JObj demo_frame) (JStr [], demo_world, []) =
     Inr (JStr ''make_coffee'', demo_world\<lparr>requests := [''comfyui_status'']\<rparr>, [''<json><<END>>''])"
  by (simp add: main_body_def demo_frame_def demo_status_step step_unknown write_response_def
      demo_dumps generate_failure_response_def command_names_def)

lemma demo_empty_body:
  "main_body demo_lib demo_handlers (JObj [(''tool_calls'', JArr [])]) (c, w, out) =
     Inr (c, w, out @ [''null<<END>>''])"
  by (simp add: main_body_def write_response_def demo_dumps)

lemma demo_number_body:
  "main_body L H (JInt 5) (c, w, out) = Inl TypeError"
  by (simp add: main_body_def)

theorem one_response_per_frame_witness:
  "main_body demo_lib demo_handlers (JObj demo_frame) (JStr [], demo_world, []) =
     Inr (JStr ''make_coffee'', demo_world\<lparr>requests := [''comfyui_status'']\<rparr>, [''<json><<END>>'']) \<and>
   (\<exists>response. [''<json><<END>>''] = [] @ [json_dumps demo_lib response @ ''<<END>>'']) \<and>
   (\<forall>r. tool_call_step demo_lib demo_handlers (JObj demo_frame) (JObj [(''func'', JStr ''make_coffee'')])
          (JStr ''comfyui_status'', r, demo_world\<lparr>requests := [''comfyui_status'']\<rparr>) =
        Inr (JStr ''make_coffee'',
             JObj [(''success'', JBool False), (''message'', JStr ''Plugin Error! Unknown command: make_coffee'')],
             demo_world\<lparr>requests := [''comfyui_status'']\<rparr>)) \<and>
   main_body demo_lib demo_handlers (JObj [(''tool_calls'', JArr [])]) (JStr [], demo_world, []) =
     Inr (JStr [], demo_world, [''null<<END>>'']) \<and>
   main_loop demo_lib demo_handlers
       [None, Some JNull, Some (JObj demo_frame), Some (JObj [(''tool_calls'', JArr [])])]
       (JStr [], demo_world, []) =
     (Waiting, [''<json><<END>>'', ''null<<END>>'']) \<and>
   main_loop demo_lib demo_handlers [Some (JObj demo_frame), Some (JInt 5), Some (JObj demo_frame)]
       (JStr [], demo_world, []) =
     (Crashed TypeError, [''<json><<END>>''])"
  using one_response_per_frame
          [of demo_lib demo_handlers "JObj demo_frame" "JStr []" demo_world "[]"
              "JStr ''make_coffee''" "demo_world\<lparr>requests := [''comfyui_status'']\<rparr>" "[''<json><<END>>'']"
              demo_frame "[JObj [(''func'', JStr ''comfyui_status'')]]" "JObj [(''func'', JStr ''make_coffee'')]"
              "JStr ''comfyui_status''"
              "JObj [(''success'', JBool True), (''message'', JStr ''comfyui_status'')]"
              "demo_world\<lparr>requests := [''comfyui_status'']\<rparr>"
              "JStr ''make_coffee''"
              "JObj [(''success'', JBool False), (''message'', JStr ''Plugin Error! Unknown command: make_coffee'')]"
              "demo_world\<lparr>requests := [''comfyui_status'']\<rparr>"
              "[Some (JObj [(''tool_calls'', JArr [])])]" TypeError]
        one_response_per_frame
          [of demo_lib demo_handlers "JObj [(''tool_calls'', JArr [])]" "JStr []" demo_world "[]"
              "JStr []" demo_world "[''null<<END>>'']"
              "[(''tool_calls'', JArr [])]" "[]" JNull JNull JNull demo_world JNull JNull demo_world
              "[Some (JObj demo_frame)]" TypeError]
        one_response_per_frame
          [of demo_lib demo_handlers "JInt 5" "JStr ''make_coffee''"
              "demo_world\<lparr>requests := [''comfyui_status'']\<rparr>" "[''<json><<END>>'']"
              JNull demo_world "[]"
              "[]" "[]" JNull JNull JNull demo_world JNull JNull demo_world
              "[Some (JObj demo_frame)]" TypeError]
  by (simp add: demo_frame_body demo_empty_body demo_number_body demo_status_step step_unknown
      generate_failure_response_def demo_dumps command_names_def)

text \<open>
  Claim C9 as stated fails: not every received frame is answered. A frame that cannot be
  decoded and a frame that is the JSON text \<^verbatim>\<open>null\<close> are skipped at the test
  \<^verbatim>\<open>if input is None\<close>, and \<^verbatim>\<open>main\<close> waits for the next frame having written
  nothing. A frame that is the number 5 raises TypeError at the test
  \<^verbatim>\<open>"tool_calls" in input\<close>, which ends \<^verbatim>\<open>main\<close> with nothing written.
\<close>

theorem frames_without_response:
  "main demo_lib demo_handlers [None, Some JNull] demo_world = (Waiting, []) \<and>
   main demo_lib demo_handlers [Some (JInt 5)] demo_world = (Crashed TypeError, [])"
  by (simp add: main_def demo_number_body)

section \<open>Initialisation\<close>













section \<open>The pipe transport\<close>

lemma read_loop_full_chunks:
  assumes "\<forall>c\<in>set fulls. length c = BUFFER_SIZE"
  shows "read_loop decode chunks (map ReadOK fulls @ pipe) =
           (if \<forall>c\<in>set fulls. decode c \<noteq> None
            then read_loop decode (chunks @ map (\<lambda>c. the (chunk_text decode c)) fulls) pipe
            else Some (Inl (), drop (Suc (length (takeWhile (\<lambda>c. decode c \<noteq> None) fulls))) (map ReadOK fulls @ pipe)))"
  using assms
proof (induction fulls arbitrary: chunks)
  case Nil
  then show ?case by simp
next
  case (Cons c cs)
  then show ?case
    by (cases "decode c") (auto simp: chunk_text_def)
qed


lemma read_command_chunks:
  assumes "\<forall>c\<in>set fulls. length c = BUFFER_SIZE" "length last_chunk < BUFFER_SIZE"
    "\<forall>c\<in>set fulls. decode c \<noteq> None"
  shows "read_command decode loads (map ReadOK fulls @ ReadOK last_chunk # rest) =
           Some (case chunk_text decode last_chunk of None \<Rightarrow> None | Some t \<Rightarrow> loads t, rest)"
  using assms
  by (simp add: read_command_def read_loop_full_chunks split: option.splits)

lemma read_command_undecodable:
  assumes "\<forall>c\<in>set fulls. length c = BUFFER_SIZE" "\<not> (\<forall>c\<in>set fulls. decode c \<noteq> None)"
  shows "\<exists>rest'. read_command decode loads (map ReadOK fulls @ pipe) = Some (None, rest')"
proof -
  have "read_loop decode [] (map ReadOK fulls @ pipe) =
      Some (Inl (), drop (Suc (length (takeWhile (\<lambda>c. decode c \<noteq> None) fulls))) (map ReadOK fulls @ pipe))"
    by (subst read_loop_full_chunks [OF assms(1)]) (rule if_not_P [OF assms(2)])
  then show ?thesis
    by (simp add: read_command_def)
qed

lemma read_command_bad_chunk:
  assumes "\<forall>c\<in>set fulls. length c = BUFFER_SIZE" "\<forall>c\<in>set fulls. decode c \<noteq> None"
    "chunk_text decode bad = None"
  shows "read_command decode loads (map ReadOK fulls @ ReadOK bad # pipe) = Some (None, pipe)"
  using assms
  by (simp add: read_command_def read_loop_full_chunks)

lemma read_command_failed_read:
  assumes "\<forall>c\<in>set fulls. length c = BUFFER_SIZE" "\<forall>c\<in>set fulls. decode c \<noteq> None"
  shows "read_command decode loads (map ReadOK fulls @ ReadFailed # pipe) = Some (None, pipe)"
  using assms
  by (simp add: read_command_def read_loop_full_chunks)

lemma demo_decode_ascii:
  "of_char b < (128::nat) \<Longrightarrow> demo_decode (b # bs) = map_option ((#) b) (demo_decode bs)"
  by (cases bs) auto

lemma demo_decode_replicate:
  "of_char b < (128::nat) \<Longrightarrow>
   demo_decode (replicate n b @ bs) = map_option ((@) (replicate n b)) (demo_decode bs)"
proof (induction n)
  case 0
  show ?case by (cases "demo_decode bs") simp_all
next
  case (Suc n)
  then show ?case by (cases "demo_decode bs") (simp_all add: demo_decode_ascii)
qed

lemma demo_decode_letters: "demo_decode (replicate n (CHR ''x'')) = Some (replicate n (CHR ''x''))"
  using demo_decode_replicate [of "CHR ''x''" n "[]"] by simp

lemma demo_decode_object:
  "demo_decode (''{}'' @ replicate n (CHR 0x00)) = Some (''{}'' @ replicate n (CHR 0x00))"
  using demo_decode_replicate [of "CHR 0x00" n "[]"] by (simp add: demo_decode_ascii)

lemma demo_decode_full_chunk: "demo_decode demo_full_chunk = None"
  using demo_decode_replicate [of "CHR ''x''" 4093 "[CHR 0xC3]"]
  by (simp add: demo_full_chunk_def demo_decode_ascii)

lemma demo_full_chunk_length: "length demo_full_chunk = BUFFER_SIZE"
  by (simp add: demo_full_chunk_def BUFFER_SIZE_def)

lemma char_of_233: "char_of (233::nat) = CHR 0xE9"
  by code_simp

lemma demo_decode_frame:
  "demo_decode (demo_full_chunk @ demo_short_chunk) =
     Some (CHR ''['' # CHR 0x22 # replicate 4093 (CHR ''x'') @ [CHR 0xE9, CHR 0x22, CHR '']''])"
  using demo_decode_replicate [of "CHR ''x''" 4093 "[CHR 0xC3, CHR 0xA9, CHR 0x22, CHR '']'']"]
  by (simp add: demo_full_chunk_def demo_short_chunk_def demo_decode_ascii char_of_233)

lemma demo_read_split_frame:
  "read_command demo_decode demo_loads (ReadOK demo_full_chunk # ReadOK demo_short_chunk # pipe) =
     Some (None, ReadOK demo_short_chunk # pipe)"
  using read_command_bad_chunk [of "[]" demo_decode demo_full_chunk demo_loads
          "ReadOK demo_short_chunk # pipe"]
  by (simp add: chunk_text_def demo_full_chunk_length demo_decode_full_chunk)

text \<open>
  Claim C4, as the code has it. The reads are a number of full ones (\<^verbatim>\<open>BUFFER_SIZE\<close> bytes
  each), every one of them valid UTF-8 on its own, followed by one more read. If that
  read is short or empty, \<^verbatim>\<open>read_command\<close> stops there, having consumed exactly
  these reads, and its result is \<^verbatim>\<open>json.loads\<close> of the text of the last chunk alone,
  the same as for a frame made of the last chunk only. If that read fails, or delivers a
  chunk that is not valid UTF-8 on its own (full or short), \<^verbatim>\<open>read_command\<close> stops
  there with the result \<^verbatim>\<open>None\<close> and leaves the following reads in the pipe. In
  every case a command that \<^verbatim>\<open>read_command\<close> returns after full reads and a short
  one is the one decoded from the last chunk: the bytes of the chunks before it do not
  contribute to it.
\<close>

theorem read_command_decodes_last_chunk:
  "((\<forall>c\<in>set fulls. length c = BUFFER_SIZE \<and> decode c \<noteq> None) \<and>
    length last_chunk < BUFFER_SIZE \<longrightarrow>
      read_command decode loads (map ReadOK fulls @ ReadOK last_chunk # rest) =
        Some (case chunk_text decode last_chunk of None \<Rightarrow> None | Some t \<Rightarrow> loads t, rest) \<and>
      read_command decode loads (map ReadOK fulls @ ReadOK last_chunk # rest) =
        read_command decode loads (ReadOK last_chunk # rest)) \<and>
   ((\<forall>c\<in>set fulls. length c = BUFFER_SIZE \<and> decode c \<noteq> None) \<and>
    chunk_text decode bad = None \<longrightarrow>
      read_command decode loads (map ReadOK fulls @ ReadOK bad # rest) = Some (None, rest)) \<and>
   ((\<forall>c\<in>set fulls. length c = BUFFER_SIZE \<and> decode c \<noteq> None) \<longrightarrow>
      read_command decode loads (map ReadOK fulls @ ReadFailed # rest) = Some (None, rest)) \<and>
   ((\<forall>c\<in>set fulls. length c = BUFFER_SIZE) \<and> length last_chunk < BUFFER_SIZE \<longrightarrow>
      (\<exists>r rest'. read_command decode loads (map ReadOK fulls @ ReadOK last_chunk # rest) =
                   Some (r, rest'))) \<and>
   ((\<forall>c\<in>set fulls. length c = BUFFER_SIZE) \<and> length last_chunk < BUFFER_SIZE \<and>
    read_command decode loads (map ReadOK fulls @ ReadOK last_chunk # rest) = Some (Some cmd, rest') \<longrightarrow>
      read_command decode loads (ReadOK last_chunk # rest) = Some (Some cmd, rest'))"
proof -
  have single: "read_command decode loads (ReadOK last_chunk # rest) =
      Some (case chunk_text decode last_chunk of None \<Rightarrow> None | Some t \<Rightarrow> loads t, rest)"
    if "length last_chunk < BUFFER_SIZE"
    using read_command_chunks [of "[]" last_chunk decode loads rest] that by simp
  have multi: "read_command decode loads (map ReadOK fulls @ ReadOK last_chunk # rest) =
      Some (case chunk_text decode last_chunk of None \<Rightarrow> None | Some t \<Rightarrow> loads t, rest)"
    if "\<forall>c\<in>set fulls. length c = BUFFER_SIZE" "\<forall>c\<in>set fulls. decode c \<noteq> None"
       "length last_chunk < BUFFER_SIZE"
    using read_command_chunks [OF that(1) that(3) that(2)] .
  have none: "\<exists>rest'. read_command decode loads (map ReadOK fulls @ ReadOK last_chunk # rest) =
      Some (None, rest')"
    if "\<forall>c\<in>set fulls. length c = BUFFER_SIZE" "\<not> (\<forall>c\<in>set fulls. decode c \<noteq> None)"
    using read_command_undecodable [OF that] .
  show ?thesis
  proof (intro conjI impI)
    assume a: "(\<forall>c\<in>set fulls. length c = BUFFER_SIZE \<and> decode c \<noteq> None) \<and>
      length last_chunk < BUFFER_SIZE"
    then show "read_command decode loads (map ReadOK fulls @ ReadOK last_chunk # rest) =
        Some (case chunk_text decode last_chunk of None \<Rightarrow> None | Some t \<Rightarrow> loads t, rest)"
      using multi by blast
    with a show "read_command decode loads (map ReadOK fulls @ ReadOK last_chunk # rest) =
        read_command decode loads (ReadOK last_chunk # rest)"
      using single by simp
  next
    assume "(\<forall>c\<in>set fulls. length c = BUFFER_SIZE \<and> decode c \<noteq> None) \<and>
      chunk_text decode bad = None"
    then show "read_command decode loads (map ReadOK fulls @ ReadOK bad # rest) = Some (None, rest)"
      using read_command_bad_chunk [of fulls decode bad loads rest] by blast
  next
    assume "\<forall>c\<in>set fulls. length c = BUFFER_SIZE \<and> decode c \<noteq> None"
    then show "read_command decode loads (map ReadOK fulls @ ReadFailed # rest) = Some (None, rest)"
      using read_command_failed_read [of fulls decode loads rest] by blast
  next
    assume a: "(\<forall>c\<in>set fulls. length c = BUFFER_SIZE) \<and> length last_chunk < BUFFER_SIZE"
    show "\<exists>r rest'. read_command decode loads (map ReadOK fulls @ ReadOK last_chunk # rest) =
        Some (r, rest')"
    proof (cases "\<forall>c\<in>set fulls. decode c \<noteq> None")
      case True
      then show ?thesis using multi a by blast
    next
      case False
      then show ?thesis using none a by blast
    qed
  next
    assume a: "(\<forall>c\<in>set fulls. length c = BUFFER_SIZE) \<and> length last_chunk < BUFFER_SIZE \<and>
      read_command decode loads (map ReadOK fulls @ ReadOK last_chunk # rest) = Some (Some cmd, rest')"
    show "read_command decode loads (ReadOK last_chunk # rest) = Some (Some cmd, rest')"
    proof (cases "\<forall>c\<in>set fulls. decode c \<noteq> None")
      case True
      then show ?thesis using multi single a by simp
    next
      case False
      then show ?thesis using none a by auto
    qed
  qed
qed

theorem read_command_decodes_last_chunk_witness:
  "read_command demo_decode demo_loads [ReadOK (replicate 4096 (CHR ''x'')), ReadOK ''{}''] =
     Some (Some (JObj []), []) \<and>
   read_command demo_decode demo_loads [ReadOK ''{}''] = Some (Some (JObj []), []) \<and>
   read_command demo_decode demo_loads
       [ReadOK (replicate 4096 (CHR ''x'')), ReadOK demo_full_chunk, ReadOK ''{}''] =
     Some (None, [ReadOK ''{}'']) \<and>
   read_command demo_decode demo_loads
       [ReadOK (replicate 4096 (CHR ''x'')), ReadFailed, ReadOK ''{}''] =
     Some (None, [ReadOK ''{}''])"
  using read_command_decodes_last_chunk
          [of "[replicate 4096 (CHR ''x'')]" demo_decode "''{}''" demo_loads "[]"
              demo_full_chunk "JObj []" "[]"]
        read_command_decodes_last_chunk
          [of "[replicate 4096 (CHR ''x'')]" demo_decode "''{}''" demo_loads "[ReadOK ''{}'']"
              demo_full_chunk "JObj []" "[]"]
        demo_decode_object [of 4094]
  by (simp add: BUFFER_SIZE_def chunk_text_def demo_decode_letters demo_loads_def
      demo_decode_full_chunk demo_full_chunk_length [unfolded BUFFER_SIZE_def])

text \<open>
  Claim C4 as stated fails: \<^verbatim>\<open>read_command\<close> does not stop at the first short chunk
  of every frame. The frame \<open>demo_full_chunk @ demo_short_chunk\<close> is valid UTF-8, but its
  first 4096 bytes end inside a character: decoding the full buffer raises, the loop is
  left with the result \<^verbatim>\<open>None\<close>, and the short chunk is still in the pipe (the next
  call of \<^verbatim>\<open>read_command\<close> reads it as a frame of its own).
\<close>

theorem split_character_stops_reading:
  "length demo_full_chunk = BUFFER_SIZE \<and>
   demo_decode (demo_full_chunk @ demo_short_chunk) =
     Some (CHR ''['' # CHR 0x22 # replicate 4093 (CHR ''x'') @ [CHR 0xE9, CHR 0x22, CHR '']'']) \<and>
   read_command demo_decode demo_loads [ReadOK demo_full_chunk, ReadOK demo_short_chunk] =
     Some (None, [ReadOK demo_short_chunk])"
  by (simp add: demo_full_chunk_length demo_decode_frame demo_read_split_frame)

section \<open>The execution monitor\<close>

lemma monitor_loop_append:
  "monitor_loop loads pid pre imgs n = (Monitoring imgs', n') \<Longrightarrow>
   monitor_loop loads pid (pre @ rest) imgs n = monitor_loop loads pid rest imgs' n'"
proof (induction loads pid pre imgs n rule: monitor_loop.induct)
  case (1 loads pid imgs n)
  then show ?case by simp
next
  case (2 loads pid elapsed r rest' imgs n)
  then show ?case
    by (auto split: if_splits recv.splits option.splits sum.splits bool.splits)
qed

lemma py_getitem_in: "py_getitem d k = Inr v \<Longrightarrow> py_in (JStr k) d = Inr True"
  by (cases d) (auto split: option.splits dest: map_of_key)

lemma completion_message:
  assumes "py_getitem message ''type'' = Inr (JStr ''executing'')"
    "py_getitem message ''data'' = Inr data"
    "py_getitem data ''prompt_id'' = Inr (JStr P)"
    "py_getitem data ''node'' = Inr JNull"
  shows "handle_message message (JStr P) = Inr True"
  using assms py_getitem_in[OF assms(3)]
  by (simp add: handle_message_def)

lemma download_images_trace:
  "download_images L view u i infos stored trace = (r, stored', trace') \<Longrightarrow>
   filter is_history trace' = filter is_history trace"
proof (induction infos arbitrary: i stored trace)
  case Nil
  then show ?case by simp
next
  case (Cons a infos)
  then show ?case
    by (auto split: sum.splits fetch_result.splits if_splits)
qed

lemma history_fallback_trace:
  "history_fallback L env u pid = (imgs, trace) \<Longrightarrow> length (filter is_history trace) = 1"
  by (auto simp: history_fallback_def Let_def
      split: http_result.splits if_splits option.splits sum.splits prod.splits
      dest: download_images_trace)

lemma filter_history_replicate [simp]: "filter is_history (replicate n WsRecv) = []"
  by (induction n) auto

lemma execute_after_loop:
  assumes "post_prompt env = HttpResponse status (Some result)" "\<not> (400 \<le> status \<and> status < 600)"
    "py_get result ''prompt_id'' JNull = Inr pid" "py_truthy pid"
    "ws_connect_raises env = None"
    "monitor_loop loads pid (ticks env) [] 0 = (Broke completed imgs, n)"
  shows "\<exists>ret trace. execute_comfyui_workflow L loads env workflow u = Some (ret, trace) \<and>
           length (filter is_history trace) = (if imgs = [] then 1 else 0) \<and>
           (imgs \<noteq> [] \<longrightarrow> ret = Some imgs)"
proof (cases "imgs = []")
  case True
  obtain imgs' t4 where f: "history_fallback L env u pid = (imgs', t4)"
    by (cases "history_fallback L env u pid")
  show ?thesis using assms True f history_fallback_trace[OF f]
    by (simp add: execute_comfyui_workflow_def Let_def)
next
  case False
  then show ?thesis using assms
    by (simp add: execute_comfyui_workflow_def Let_def)
qed

lemma execute_history_at_most_once:
  assumes "execute_comfyui_workflow L loads env workflow u = Some (ret, trace)"
  shows "length (filter is_history trace) \<le> 1"
  using assms
  by (auto simp: execute_comfyui_workflow_def Let_def
      split: http_result.splits if_splits option.splits sum.splits prod.splits loop_end.splits
      dest!: history_fallback_trace)

lemma execute_connect_fails:
  assumes "ws_connect_raises env = Some e"
    and "execute_comfyui_workflow L loads env workflow u = Some (ret, trace)"
  shows "ret = None \<and> filter is_history trace = []"
  using assms
  by (auto simp: execute_comfyui_workflow_def Let_def
      split: http_result.splits if_splits option.splits sum.splits)

lemma download_images_responses:
  assumes "\<forall>(j, p) \<in> set (enumerate i plan).
             view_url L u (pf_descriptor p) = Inr (pf_url p) \<and>
             view j (pf_url p) = FetchResponse (pf_status p) (pf_content p)"
  shows "download_images L view u i (map pf_descriptor plan @ rest) stored trace =
           download_images L view u (i + length plan) rest
             (stored @ map pf_content (filter (\<lambda>p. pf_status p = 200) plan))
             (trace @ map (\<lambda>p. GetView (pf_url p)) plan)"
  using assms
proof (induction plan arbitrary: i stored trace)
  case Nil
  then show ?case by simp
next
  case (Cons p plan)
  from Cons.prems have hd: "view_url L u (pf_descriptor p) = Inr (pf_url p)"
      "view i (pf_url p) = FetchResponse (pf_status p) (pf_content p)"
    and tl: "\<forall>(j, p) \<in> set (enumerate (Suc i) plan).
             view_url L u (pf_descriptor p) = Inr (pf_url p) \<and>
             view j (pf_url p) = FetchResponse (pf_status p) (pf_content p)"
    by auto
  show ?case
    using hd Cons.IH [OF tl] by simp
qed

lemma history_fallback_responses:
  assumes "get_history env = HttpResponse 200 (Some history)"
    and "history_images history pid = Inr (Some (JArr (map pf_descriptor plan)))"
    and "\<forall>(j, p) \<in> set (enumerate 0 plan).
             view_url L u (pf_descriptor p) = Inr (pf_url p) \<and>
             get_view env j (pf_url p) = FetchResponse (pf_status p) (pf_content p)"
  shows "history_fallback L env u pid =
           ([(''1'', map pf_content (filter (\<lambda>p. pf_status p = 200) plan))],
            GetHistory (u @ ''/history'') # map (\<lambda>p. GetView (pf_url p)) plan)"
  using assms(1,2) download_images_responses [OF assms(3), of "[]" "[]" "[GetHistory (u @ ''/history'')]"]
  by (simp add: history_fallback_def)

lemma history_fallback_raise:
  assumes "get_history env = HttpResponse 200 (Some history)"
    and "history_images history pid = Inr (Some (JArr (map pf_descriptor plan @ info # rest)))"
    and "\<forall>(j, p) \<in> set (enumerate 0 plan).
             view_url L u (pf_descriptor p) = Inr (pf_url p) \<and>
             get_view env j (pf_url p) = FetchResponse (pf_status p) (pf_content p)"
    and "view_url L u info = Inr image_url"
    and "get_view env (length plan) image_url = FetchRaises e"
  shows "history_fallback L env u pid =
           ([(''1'', map pf_content (filter (\<lambda>p. pf_status p = 200) plan))],
            GetHistory (u @ ''/history'') # map (\<lambda>p. GetView (pf_url p)) plan @ [GetView image_url])"
  using assms(1,2,4,5)
    download_images_responses [OF assms(3), of "info # rest" "[]" "[GetHistory (u @ ''/history'')]"]
  by (simp add: history_fallback_def)

lemma execute_fallback_result:
  assumes "post_prompt env = HttpResponse status (Some result)" "\<not> (400 \<le> status \<and> status < 600)"
    "py_get result ''prompt_id'' JNull = Inr pid" "py_truthy pid"
    "ws_connect_raises env = None"
    "monitor_loop loads pid (ticks env) [] 0 = (Broke completed [], n)"
    "history_fallback L env u pid = ([(''1'', stored)], t4)"
  shows "\<exists>t3. execute_comfyui_workflow L loads env workflow u = Some (Some [(''1'', stored)], t3 @ t4) \<and>
           filter is_history t3 = []"
  using assms
  by (simp add: execute_comfyui_workflow_def Let_def)

text \<open>
  Claim C2, as the code has it. The prompt was queued with the id \<open>P\<close> and the
  WebSocket is connected; the ticks \<open>pre\<close> leave the loop monitoring, with the images
  \<open>imgs\<close> received in binary frames; then, within the deadline, a text message of type
  \<^verbatim>\<open>executing\<close> arrives whose data has the prompt id \<open>P\<close> and a null node. Then
  the loop ends with \<^verbatim>\<open>workflow_completed\<close> set, after that message, and the function
  returns. The history endpoint is not requested when a binary frame had been received
  (the function returns those images), and it is requested once when none had been.
\<close>

theorem completion_event_ends_monitoring:
  assumes "post_prompt env = HttpResponse status (Some result)"
    and "\<not> (400 \<le> status \<and> status < 600)"
    and "py_get result ''prompt_id'' JNull = Inr (JStr P)"
    and "P \<noteq> []"
    and "ws_connect_raises env = None"
    and "ticks env = pre @ (elapsed, RecvText out) # rest"
    and "monitor_loop loads (JStr P) pre [] 0 = (Monitoring imgs, n)"
    and "elapsed \<le> timeout_us"
    and "loads out = Some message"
    and "py_getitem message ''type'' = Inr (JStr ''executing'')"
    and "py_getitem message ''data'' = Inr data"
    and "py_getitem data ''prompt_id'' = Inr (JStr P)"
    and "py_getitem data ''node'' = Inr JNull"
  shows "monitor_loop loads (JStr P) (ticks env) [] 0 = (Broke True imgs, Suc n) \<and>
         (\<exists>ret trace. execute_comfyui_workflow L loads env workflow u = Some (ret, trace) \<and>
            length (filter is_history trace) = (if imgs = [] then 1 else 0) \<and>
            (imgs \<noteq> [] \<longrightarrow> ret = Some imgs))"
proof -
  have m: "handle_message message (JStr P) = Inr True"
    using assms(10-13) by (rule completion_message)
  have loop: "monitor_loop loads (JStr P) (ticks env) [] 0 = (Broke True imgs, Suc n)"
    using monitor_loop_append [OF assms(7), of "(elapsed, RecvText out) # rest"] assms(6,8,9) m
    by simp
  have "py_truthy (JStr P)" using assms(4) by simp
  from execute_after_loop [OF assms(1,2,3) this assms(5) loop, of L workflow u] loop
  show ?thesis by simp
qed

lemma demo_ws_url: "ws_url demo_url ''c1'' = ''ws://localhost:8188/ws?clientId=c1''"
  by (simp add: ws_url_def demo_url_def)

lemma demo_loop:
  "monitor_loop demo_ws_loads (JStr ''p1'') [(0, RecvText ''step''), (1000000, RecvBinary ''PNG'')] [] 0 =
     (Monitoring [(''1'', [''PNG''])], 2)"
  by (simp add: demo_ws_loads_def handle_message_def timeout_us_def store_image_def)

theorem completion_event_ends_monitoring_witness:
  "monitor_loop demo_ws_loads (JStr ''p1'') (ticks demo_env) [] 0 = (Broke True [(''1'', [''PNG''])], 3) \<and>
   (\<exists>trace. execute_comfyui_workflow demo_lib demo_ws_loads demo_env JNull demo_url =
              Some (Some [(''1'', [''PNG''])], trace) \<and> filter is_history trace = [])"
  using completion_event_ends_monitoring
          [of demo_env 200 "JObj [(''prompt_id'', JStr ''p1'')]" "''p1''"
              "[(0, RecvText ''step''), (1000000, RecvBinary ''PNG'')]" 2000000 "''done''" "[]"
              demo_ws_loads "[(''1'', [''PNG''])]" 2
              "JObj [(''type'', JStr ''executing''),
                     (''data'', JObj [(''node'', JNull), (''prompt_id'', JStr ''p1'')])]"
              "JObj [(''node'', JNull), (''prompt_id'', JStr ''p1'')]" demo_lib JNull demo_url]
        demo_loop
  by (auto simp: demo_env_def demo_ws_loads_def timeout_us_def)

lemma demo_view_url:
  "view_url demo_lib demo_url (demo_descriptor name) =
     Inr (''http://localhost:8188/view?filename='' @ name @ ''&type=output&subfolder='')"
  by (simp add: view_url_def demo_descriptor_def fmt_def demo_url_def)

lemma demo_history_images:
  "history_images demo_history (JStr ''p1'') =
     Inr (Some (JArr [demo_descriptor ''a.png'', demo_descriptor ''b.png'', demo_descriptor ''c.png'']))"
  by (simp add: history_images_def demo_history_def)

lemma execute_broke_empty:
  assumes "post_prompt env = HttpResponse status (Some result)" "\<not> (400 \<le> status \<and> status < 600)"
    "py_get result ''prompt_id'' JNull = Inr pid" "py_truthy pid"
    "ws_connect_raises env = None"
    "monitor_loop loads pid (ticks env) [] 0 = (Broke completed [], n)"
    "history_fallback L env u pid = (stored, t4)"
  shows "execute_comfyui_workflow L loads env workflow u =
           Some (if stored \<noteq> [] then Some stored else None,
                 [PostPrompt (u @ ''/prompt'') (JObj [(''prompt'', workflow), (''client_id'', JStr (client_id env))]),
                  GetStatus (u @ ''/prompt''), WsConnect (ws_url u (client_id env))] @
                 replicate n WsRecv @ [WsClose] @ t4)"
  using assms
  by (simp add: execute_comfyui_workflow_def Let_def)

lemma demo_fallback:
  assumes "get_history env = get_history demo_env" "get_view env = get_view demo_env"
  shows "history_fallback demo_lib env demo_url (JStr ''p1'') =
     ([(''1'', [''IMAGE http://localhost:8188/view?filename=a.png&type=output&subfolder=''])],
      [GetHistory (demo_url @ ''/history''),
       GetView ''http://localhost:8188/view?filename=a.png&type=output&subfolder='',
       GetView ''http://localhost:8188/view?filename=b.png&type=output&subfolder=''])"
  using assms
  by (simp add: history_fallback_def demo_env_def demo_history_images demo_view_url)

text \<open>
  Claim C2 as stated fails: when the completion event is the first message of the
  stream, no image has been received, and the function goes on to request the history
  and the images it lists.
\<close>

theorem completion_event_polls_history:
  "execute_comfyui_workflow demo_lib demo_ws_loads (demo_env\<lparr>ticks := [(0, RecvText ''done'')]\<rparr>)
       JNull demo_url =
     Some (Some [(''1'', [''IMAGE http://localhost:8188/view?filename=a.png&type=output&subfolder=''])],
           [PostPrompt ''http://localhost:8188/prompt'' (JObj [(''prompt'', JNull), (''client_id'', JStr ''c1'')]),
            GetStatus ''http://localhost:8188/prompt'',
            WsConnect ''ws://localhost:8188/ws?clientId=c1'',
            WsRecv, WsClose,
            GetHistory ''http://localhost:8188/history'',
            GetView ''http://localhost:8188/view?filename=a.png&type=output&subfolder='',
            GetView ''http://localhost:8188/view?filename=b.png&type=output&subfolder=''])"
proof -
  let ?env = "demo_env\<lparr>ticks := [(0, RecvText ''done'')]\<rparr>"
  have loop: "monitor_loop demo_ws_loads (JStr ''p1'') (ticks ?env) [] 0 = (Broke True [], 1)"
    by (simp add: demo_ws_loads_def handle_message_def timeout_us_def)
  have post: "post_prompt ?env = HttpResponse 200 (Some (JObj [(''prompt_id'', JStr ''p1'')]))"
    by (simp add: demo_env_def)
  have conn: "ws_connect_raises ?env = None"
    by (simp add: demo_env_def)
  have cid: "client_id ?env = ''c1''"
    by (simp add: demo_env_def)
  have fb: "history_fallback demo_lib ?env demo_url (JStr ''p1'') =
     ([(''1'', [''IMAGE http://localhost:8188/view?filename=a.png&type=output&subfolder=''])],
      [GetHistory (demo_url @ ''/history''),
       GetView ''http://localhost:8188/view?filename=a.png&type=output&subfolder='',
       GetView ''http://localhost:8188/view?filename=b.png&type=output&subfolder=''])"
    by (rule demo_fallback) simp_all
  show ?thesis
    by (subst execute_broke_empty [OF post _ _ _ conn loop fb])
       (simp_all add: cid demo_ws_url, simp add: demo_url_def)
qed

lemma execute_loop_raises:
  assumes "ws_connect_raises env = None"
    and "post_prompt env = HttpResponse status (Some result)"
    and "py_get result ''prompt_id'' JNull = Inr pid"
    and "monitor_loop loads pid (ticks env) [] 0 = (Raised e, n)"
    and "execute_comfyui_workflow L loads env workflow u = Some (ret, trace)"
  shows "ret = None \<and> filter is_history trace = []"
  using assms
  by (auto simp: execute_comfyui_workflow_def Let_def split: if_splits)

text \<open>
  Claim C3, as the code has it. When the prompt was queued, the WebSocket connected and
  the monitoring loop ended at a \<^verbatim>\<open>break\<close> (the deadline or a completion event)
  without an image, the function requests the history exactly once before it returns.
  When \<^verbatim>\<open>ws.connect\<close> raises, or the handling of a text message raises, the function
  returns None and has not requested the history. In no case is the history requested
  twice.
\<close>

theorem fallback_poll_after_monitoring:
  "(post_prompt env = HttpResponse status (Some result) \<and> \<not> (400 \<le> status \<and> status < 600) \<and>
    py_get result ''prompt_id'' JNull = Inr pid \<and> py_truthy pid \<and>
    ws_connect_raises env = None \<and>
    monitor_loop loads pid (ticks env) [] 0 = (Broke completed [], n) \<longrightarrow>
      (\<exists>ret trace. execute_comfyui_workflow L loads env workflow u = Some (ret, trace) \<and>
         length (filter is_history trace) = 1)) \<and>
   (ws_connect_raises env = Some e \<and>
    execute_comfyui_workflow L loads env workflow u = Some (ret, trace) \<longrightarrow>
      ret = None \<and> filter is_history trace = []) \<and>
   (ws_connect_raises env = None \<and> post_prompt env = HttpResponse status (Some result) \<and>
    py_get result ''prompt_id'' JNull = Inr pid \<and>
    monitor_loop loads pid (ticks env) [] 0 = (Raised e, n) \<and>
    execute_comfyui_workflow L loads env workflow u = Some (ret, trace) \<longrightarrow>
      ret = None \<and> filter is_history trace = []) \<and>
   (execute_comfyui_workflow L loads env workflow u = Some (ret, trace) \<longrightarrow>
      length (filter is_history trace) \<le> 1)"
proof (intro conjI impI)
  assume "post_prompt env = HttpResponse status (Some result) \<and> \<not> (400 \<le> status \<and> status < 600) \<and>
    py_get result ''prompt_id'' JNull = Inr pid \<and> py_truthy pid \<and>
    ws_connect_raises env = None \<and>
    monitor_loop loads pid (ticks env) [] 0 = (Broke completed [], n)"
  then show "\<exists>ret trace. execute_comfyui_workflow L loads env workflow u = Some (ret, trace) \<and>
         length (filter is_history trace) = 1"
    using execute_after_loop [of env status result pid loads completed "[]" n L workflow u] by auto
next
  assume a: "ws_connect_raises env = Some e \<and>
    execute_comfyui_workflow L loads env workflow u = Some (ret, trace)"
  then show "ret = None" "filter is_history trace = []"
    using execute_connect_fails by blast+
next
  assume a: "ws_connect_raises env = None \<and> post_prompt env = HttpResponse status (Some result) \<and>
    py_get result ''prompt_id'' JNull = Inr pid \<and>
    monitor_loop loads pid (ticks env) [] 0 = (Raised e, n) \<and>
    execute_comfyui_workflow L loads env workflow u = Some (ret, trace)"
  then show "ret = None" "filter is_history trace = []"
    using execute_loop_raises by blast+
next
  assume "execute_comfyui_workflow L loads env workflow u = Some (ret, trace)"
  then show "length (filter is_history trace) \<le> 1"
    by (rule execute_history_at_most_once)
qed

lemma demo_connect_failure:
  "execute_comfyui_workflow demo_lib demo_ws_loads
       (demo_env\<lparr>ws_connect_raises := Some WebSocketException\<rparr>) JNull demo_url =
     Some (None,
           [PostPrompt ''http://localhost:8188/prompt'' (JObj [(''prompt'', JNull), (''client_id'', JStr ''c1'')]),
            GetStatus ''http://localhost:8188/prompt'',
            WsConnect ''ws://localhost:8188/ws?clientId=c1''])"
  by (simp add: execute_comfyui_workflow_def demo_env_def demo_ws_url)
     (simp add: demo_url_def)

lemma demo_loop_raises:
  "execute_comfyui_workflow demo_lib demo_ws_loads
       (demo_env\<lparr>ticks := [(0, RecvText ''bad'')]\<rparr>) JNull demo_url =
     Some (None,
           [PostPrompt ''http://localhost:8188/prompt'' (JObj [(''prompt'', JNull), (''client_id'', JStr ''c1'')]),
            GetStatus ''http://localhost:8188/prompt'',
            WsConnect ''ws://localhost:8188/ws?clientId=c1'', WsRecv, WsClose])"
  by (simp add: execute_comfyui_workflow_def demo_env_def demo_ws_url demo_ws_loads_def
        handle_message_def timeout_us_def)
     (simp add: demo_url_def)

lemma demo_loop_deadline:
  "monitor_loop demo_ws_loads (JStr ''p1'') [(300000001, RecvTimeout)] [] 0 = (Broke False [], 0)"
  by (simp add: timeout_us_def)

theorem fallback_poll_after_monitoring_witness:
  "monitor_loop demo_ws_loads (JStr ''p1'') (ticks (demo_env\<lparr>ticks := [(300000001, RecvTimeout)]\<rparr>)) [] 0 =
     (Broke False [], 0) \<and>
   (\<exists>ret trace. execute_comfyui_workflow demo_lib demo_ws_loads
                   (demo_env\<lparr>ticks := [(300000001, RecvTimeout)]\<rparr>) JNull demo_url = Some (ret, trace) \<and>
                 length (filter is_history trace) = 1) \<and>
   ws_connect_raises (demo_env\<lparr>ws_connect_raises := Some WebSocketException\<rparr>) = Some WebSocketException \<and>
   monitor_loop demo_ws_loads (JStr ''p1'') (ticks (demo_env\<lparr>ticks := [(0, RecvText ''bad'')]\<rparr>)) [] 0 =
     (Raised TypeError, 1)"
  using fallback_poll_after_monitoring
          [of "demo_env\<lparr>ticks := [(300000001, RecvTimeout)]\<rparr>" 200 "JObj [(''prompt_id'', JStr ''p1'')]"
              "JStr ''p1''" demo_ws_loads False 0 demo_lib JNull demo_url WebSocketException None "[]"]
        fallback_poll_after_monitoring
          [of "demo_env\<lparr>ws_connect_raises := Some WebSocketException\<rparr>" 200
              "JObj [(''prompt_id'', JStr ''p1'')]" "JStr ''p1''" demo_ws_loads False 0 demo_lib JNull demo_url
              WebSocketException None
              "[PostPrompt ''http://localhost:8188/prompt'' (JObj [(''prompt'', JNull), (''client_id'', JStr ''c1'')]),
                GetStatus ''http://localhost:8188/prompt'',
                WsConnect ''ws://localhost:8188/ws?clientId=c1'']"]
        fallback_poll_after_monitoring
          [of "demo_env\<lparr>ticks := [(0, RecvText ''bad'')]\<rparr>" 200
              "JObj [(''prompt_id'', JStr ''p1'')]" "JStr ''p1''" demo_ws_loads False 1 demo_lib JNull demo_url
              TypeError None
              "[PostPrompt ''http://localhost:8188/prompt'' (JObj [(''prompt'', JNull), (''client_id'', JStr ''c1'')]),
                GetStatus ''http://localhost:8188/prompt'',
                WsConnect ''ws://localhost:8188/ws?clientId=c1'', WsRecv, WsClose]"]
        demo_connect_failure demo_loop_raises demo_loop_deadline
  by (simp add: demo_env_def demo_ws_loads_def handle_message_def timeout_us_def)

text \<open>
  Claim C3 as stated fails: when the WebSocket connection cannot be established the
  function returns None after the connection attempt; the history is never requested.
\<close>

theorem connect_failure_skips_history:
  "execute_comfyui_workflow demo_lib demo_ws_loads
       (demo_env\<lparr>ws_connect_raises := Some WebSocketException\<rparr>) JNull demo_url =
     Some (None,
           [PostPrompt ''http://localhost:8188/prompt'' (JObj [(''prompt'', JNull), (''client_id'', JStr ''c1'')]),
            GetStatus ''http://localhost:8188/prompt'',
            WsConnect ''ws://localhost:8188/ws?clientId=c1''])"
  by (rule demo_connect_failure)

text \<open>
  Claim C6, as the code has it. The history answers with the image descriptors of
  \<open>plan\<close> for the prompt id. Each descriptor is requested, in order, by the URL that
  \<^verbatim>\<open>view_url\<close> builds from its filename and subfolder, with the type fixed to
  \<^verbatim>\<open>output\<close>. When every request is answered, the fallback stores exactly the
  contents answered with status 200 (all of them when every status is 200), and an
  answer with another status does not stop the loop. When a request raises, the loop
  ends there: the descriptors after it are not requested and the images stored before
  are kept. When the stream gave no image and the fallback stored at least one, the
  function returns the stored images under the node \<^verbatim>\<open>1\<close>.
\<close>

theorem history_fallback_retrieves_images:
  "(get_history env = HttpResponse 200 (Some history) \<and>
    history_images history pid = Inr (Some (JArr (map pf_descriptor plan))) \<and>
    (\<forall>(j, p) \<in> set (enumerate 0 plan).
        view_url L u (pf_descriptor p) = Inr (pf_url p) \<and>
        get_view env j (pf_url p) = FetchResponse (pf_status p) (pf_content p)) \<longrightarrow>
      history_fallback L env u pid =
        ([(''1'', map pf_content (filter (\<lambda>p. pf_status p = 200) plan))],
         GetHistory (u @ ''/history'') # map (\<lambda>p. GetView (pf_url p)) plan) \<and>
      ((\<forall>p \<in> set plan. pf_status p = 200) \<longrightarrow>
         length (map pf_content (filter (\<lambda>p. pf_status p = 200) plan)) = length plan)) \<and>
   (get_history env = HttpResponse 200 (Some history) \<and>
    history_images history pid = Inr (Some (JArr (map pf_descriptor plan @ info # rest))) \<and>
    (\<forall>(j, p) \<in> set (enumerate 0 plan).
        view_url L u (pf_descriptor p) = Inr (pf_url p) \<and>
        get_view env j (pf_url p) = FetchResponse (pf_status p) (pf_content p)) \<and>
    view_url L u info = Inr image_url \<and>
    get_view env (length plan) image_url = FetchRaises e \<longrightarrow>
      history_fallback L env u pid =
        ([(''1'', map pf_content (filter (\<lambda>p. pf_status p = 200) plan))],
         GetHistory (u @ ''/history'') # map (\<lambda>p. GetView (pf_url p)) plan @ [GetView image_url])) \<and>
   (post_prompt env = HttpResponse status (Some result) \<and> \<not> (400 \<le> status \<and> status < 600) \<and>
    py_get result ''prompt_id'' JNull = Inr pid \<and> py_truthy pid \<and>
    ws_connect_raises env = None \<and>
    monitor_loop loads pid (ticks env) [] 0 = (Broke completed [], n) \<and>
    history_fallback L env u pid = ([(''1'', stored)], t4) \<and> stored \<noteq> [] \<longrightarrow>
      (\<exists>t3. execute_comfyui_workflow L loads env workflow u = Some (Some [(''1'', stored)], t3 @ t4) \<and>
            filter is_history t3 = []))"
proof (intro conjI impI)
  assume "get_history env = HttpResponse 200 (Some history) \<and>
    history_images history pid = Inr (Some (JArr (map pf_descriptor plan))) \<and>
    (\<forall>(j, p) \<in> set (enumerate 0 plan).
        view_url L u (pf_descriptor p) = Inr (pf_url p) \<and>
        get_view env j (pf_url p) = FetchResponse (pf_status p) (pf_content p))"
  then show "history_fallback L env u pid =
        ([(''1'', map pf_content (filter (\<lambda>p. pf_status p = 200) plan))],
         GetHistory (u @ ''/history'') # map (\<lambda>p. GetView (pf_url p)) plan)"
    using history_fallback_responses by blast
next
  assume "\<forall>p \<in> set plan. pf_status p = 200"
  then show "length (map pf_content (filter (\<lambda>p. pf_status p = 200) plan)) = length plan"
    by simp
next
  assume "get_history env = HttpResponse 200 (Some history) \<and>
    history_images history pid = Inr (Some (JArr (map pf_descriptor plan @ info # rest))) \<and>
    (\<forall>(j, p) \<in> set (enumerate 0 plan).
        view_url L u (pf_descriptor p) = Inr (pf_url p) \<and>
        get_view env j (pf_url p) = FetchResponse (pf_status p) (pf_content p)) \<and>
    view_url L u info = Inr image_url \<and>
    get_view env (length plan) image_url = FetchRaises e"
  then show "history_fallback L env u pid =
        ([(''1'', map pf_content (filter (\<lambda>p. pf_status p = 200) plan))],
         GetHistory (u @ ''/history'') # map (\<lambda>p. GetView (pf_url p)) plan @ [GetView image_url])"
    using history_fallback_raise by blast
next
  assume "post_prompt env = HttpResponse status (Some result) \<and> \<not> (400 \<le> status \<and> status < 600) \<and>
    py_get result ''prompt_id'' JNull = Inr pid \<and> py_truthy pid \<and>
    ws_connect_raises env = None \<and>
    monitor_loop loads pid (ticks env) [] 0 = (Broke completed [], n) \<and>
    history_fallback L env u pid = ([(''1'', stored)], t4) \<and> stored \<noteq> []"
  then show "\<exists>t3. execute_comfyui_workflow L loads env workflow u = Some (Some [(''1'', stored)], t3 @ t4) \<and>
            filter is_history t3 = []"
    using execute_fallback_result by blast
qed

lemma demo_fallback_deadline:
  "execute_comfyui_workflow demo_lib demo_ws_loads (demo_env\<lparr>ticks := [(300000001, RecvTimeout)]\<rparr>)
       JNull demo_url =
     Some (Some [(''1'', [''IMAGE http://localhost:8188/view?filename=a.png&type=output&subfolder=''])],
           [PostPrompt ''http://localhost:8188/prompt'' (JObj [(''prompt'', JNull), (''client_id'', JStr ''c1'')]),
            GetStatus ''http://localhost:8188/prompt'',
            WsConnect ''ws://localhost:8188/ws?clientId=c1'',
            WsClose,
            GetHistory ''http://localhost:8188/history'',
            GetView ''http://localhost:8188/view?filename=a.png&type=output&subfolder='',
            GetView ''http://localhost:8188/view?filename=b.png&type=output&subfolder=''])"
proof -
  let ?env = "demo_env\<lparr>ticks := [(300000001, RecvTimeout)]\<rparr>"
  have loop: "monitor_loop demo_ws_loads (JStr ''p1'') (ticks ?env) [] 0 = (Broke False [], 0)"
    by (simp add: timeout_us_def)
  have post: "post_prompt ?env = HttpResponse 200 (Some (JObj [(''prompt_id'', JStr ''p1'')]))"
    by (simp add: demo_env_def)
  have conn: "ws_connect_raises ?env = None"
    by (simp add: demo_env_def)
  have cid: "client_id ?env = ''c1''"
    by (simp add: demo_env_def)
  have fb: "history_fallback demo_lib ?env demo_url (JStr ''p1'') =
     ([(''1'', [''IMAGE http://localhost:8188/view?filename=a.png&type=output&subfolder=''])],
      [GetHistory (demo_url @ ''/history''),
       GetView ''http://localhost:8188/view?filename=a.png&type=output&subfolder='',
       GetView ''http://localhost:8188/view?filename=b.png&type=output&subfolder=''])"
    by (rule demo_fallback) simp_all
  show ?thesis
    by (subst execute_broke_empty [OF post _ _ _ conn loop fb])
       (simp_all add: cid demo_ws_url, simp add: demo_url_def)
qed

lemma demo_env_fields:
  "client_id demo_env = ''c1''"
  "post_prompt demo_env = HttpResponse 200 (Some (JObj [(''prompt_id'', JStr ''p1'')]))"
  "ws_connect_raises demo_env = None"
  "get_history demo_env = HttpResponse 200 (Some demo_history)"
  by (simp_all add: demo_env_def)

lemma demo_plan_fetches:
  "\<forall>(j, p) \<in> set (enumerate 0 demo_plan).
      view_url demo_lib demo_url (pf_descriptor p) = Inr (pf_url p) \<and>
      demo_view_all j (pf_url p) = FetchResponse (pf_status p) (pf_content p)"
  by (simp add: demo_plan_def demo_view_url demo_view_all_def)

lemma demo_plan_descriptors:
  "map pf_descriptor demo_plan = [demo_descriptor ''a.png'', demo_descriptor ''b.png'', demo_descriptor ''c.png'']"
  by (simp add: demo_plan_def)

theorem history_fallback_retrieves_images_witness:
  "history_fallback demo_lib (demo_env\<lparr>ticks := [(300000001, RecvTimeout)], get_view := demo_view_all\<rparr>)
       demo_url (JStr ''p1'') =
     ([(''1'', [''A'', ''C''])],
      [GetHistory ''http://localhost:8188/history'',
       GetView ''http://localhost:8188/view?filename=a.png&type=output&subfolder='',
       GetView ''http://localhost:8188/view?filename=b.png&type=output&subfolder='',
       GetView ''http://localhost:8188/view?filename=c.png&type=output&subfolder='']) \<and>
   history_fallback demo_lib demo_env demo_url (JStr ''p1'') =
     ([(''1'', [''IMAGE http://localhost:8188/view?filename=a.png&type=output&subfolder=''])],
      [GetHistory ''http://localhost:8188/history'',
       GetView ''http://localhost:8188/view?filename=a.png&type=output&subfolder='',
       GetView ''http://localhost:8188/view?filename=b.png&type=output&subfolder='']) \<and>
   (\<exists>t3. execute_comfyui_workflow demo_lib demo_ws_loads
            (demo_env\<lparr>ticks := [(300000001, RecvTimeout)], get_view := demo_view_all\<rparr>) JNull demo_url =
          Some (Some [(''1'', [''A'', ''C''])],
                t3 @ [GetHistory ''http://localhost:8188/history'',
                      GetView ''http://localhost:8188/view?filename=a.png&type=output&subfolder='',
                      GetView ''http://localhost:8188/view?filename=b.png&type=output&subfolder='',
                      GetView ''http://localhost:8188/view?filename=c.png&type=output&subfolder='']) \<and>
          filter is_history t3 = [])"
proof -
  let ?env = "demo_env\<lparr>ticks := [(300000001, RecvTimeout)], get_view := demo_view_all\<rparr>"
  let ?t4 = "[GetHistory ''http://localhost:8188/history'',
       GetView ''http://localhost:8188/view?filename=a.png&type=output&subfolder='',
       GetView ''http://localhost:8188/view?filename=b.png&type=output&subfolder='',
       GetView ''http://localhost:8188/view?filename=c.png&type=output&subfolder='']"
  have hist: "get_history ?env = HttpResponse 200 (Some demo_history)"
       "get_history demo_env = HttpResponse 200 (Some demo_history)"
    by (simp_all add: demo_env_def)
  have view: "get_view ?env = demo_view_all"
    by simp
  have a: "history_fallback demo_lib ?env demo_url (JStr ''p1'') = ([(''1'', [''A'', ''C''])], ?t4)"
    using history_fallback_retrieves_images
            [of ?env demo_history "JStr ''p1''" demo_plan demo_lib demo_url]
          hist demo_history_images demo_plan_fetches
    by (simp add: demo_plan_descriptors view) (simp add: demo_plan_def demo_url_def)
  have b: "history_fallback demo_lib demo_env demo_url (JStr ''p1'') =
     ([(''1'', [''IMAGE http://localhost:8188/view?filename=a.png&type=output&subfolder=''])],
      [GetHistory ''http://localhost:8188/history'',
       GetView ''http://localhost:8188/view?filename=a.png&type=output&subfolder='',
       GetView ''http://localhost:8188/view?filename=b.png&type=output&subfolder=''])"
    using history_fallback_retrieves_images
            [of demo_env demo_history "JStr ''p1''"
                "[\<lparr> pf_descriptor = demo_descriptor ''a.png'',
                    pf_url = ''http://localhost:8188/view?filename=a.png&type=output&subfolder='',
                    pf_status = 200,
                    pf_content = ''IMAGE http://localhost:8188/view?filename=a.png&type=output&subfolder='' \<rparr>]"
                demo_lib demo_url "demo_descriptor ''b.png''" "[demo_descriptor ''c.png'']"
                "''http://localhost:8188/view?filename=b.png&type=output&subfolder=''" ConnectionError]
          hist demo_history_images
    by (simp add: demo_view_url) (simp add: demo_env_def demo_url_def)
  have c: "\<exists>t3. execute_comfyui_workflow demo_lib demo_ws_loads ?env JNull demo_url =
          Some (Some [(''1'', [''A'', ''C''])], t3 @ ?t4) \<and> filter is_history t3 = []"
    by (rule history_fallback_retrieves_images
            [of ?env demo_history "JStr ''p1''" "[]" demo_lib demo_url JNull "[]" "[]" TypeError
                200 "JObj [(''prompt_id'', JStr ''p1'')]"
                demo_ws_loads False 0 "[''A'', ''C'']" ?t4 JNull,
             THEN conjunct2, THEN conjunct2, rule_format])
       (simp add: demo_env_fields timeout_us_def a)
  from a b c show ?thesis by simp
qed

text \<open>
  Claim C6 as stated fails: the history lists three images, the request of the second
  raises, and the third, which the service would deliver, is never requested; the
  function returns the first image only.
\<close>

theorem fetch_exception_aborts_downloads:
  "get_view demo_env 2 ''http://localhost:8188/view?filename=c.png&type=output&subfolder='' =
     FetchResponse 200 ''IMAGE http://localhost:8188/view?filename=c.png&type=output&subfolder='' \<and>
   execute_comfyui_workflow demo_lib demo_ws_loads (demo_env\<lparr>ticks := [(300000001, RecvTimeout)]\<rparr>)
       JNull demo_url =
     Some (Some [(''1'', [''IMAGE http://localhost:8188/view?filename=a.png&type=output&subfolder=''])],
           [PostPrompt ''http://localhost:8188/prompt'' (JObj [(''prompt'', JNull), (''client_id'', JStr ''c1'')]),
            GetStatus ''http://localhost:8188/prompt'',
            WsConnect ''ws://localhost:8188/ws?clientId=c1'',
            WsClose,
            GetHistory ''http://localhost:8188/history'',
            GetView ''http://localhost:8188/view?filename=a.png&type=output&subfolder='',
            GetView ''http://localhost:8188/view?filename=b.png&type=output&subfolder=''])"
  using demo_fallback_deadline by (simp add: demo_env_def)

section \<open>Workflow templates are not modified\<close>

lemma bindE_eq_Inr: "bindE m f = Inr y \<longleftrightarrow> (\<exists>x. m = Inr x \<and> f x = Inr y)"
  by (cases m) auto

lemma fresh_atoms [simp]:
  "fresh n HNone" "fresh n (HBool b)" "fresh n (HInt i)" "fresh n (HFloat f)" "fresh n (HStr s)"
  "fresh n (HRef a) = (n \<le> a)"
  by (simp_all add: fresh_def)

lemma closed_from_mono: "closed_from n K h \<Longrightarrow> K \<subseteq> K' \<Longrightarrow> closed_from n K' h"
  by (fastforce simp: closed_from_def fresh_obj_def split: hobj.splits)

lemma dict_set_entries:
  "(k', v') \<in> set (dict_set kvs k v) \<Longrightarrow> (k', v') \<in> set kvs \<or> (k' = k \<and> v' = v)"
  by (auto simp: dict_set_def split: if_splits)

lemma closed_from_update:
  assumes "closed_from n K h" "fresh_obj n K obj"
  shows "closed_from n K (h[a := obj])"
proof (cases "a < length h")
  case True
  then show ?thesis using assms by (auto simp: closed_from_def nth_list_update)
next
  case False
  then show ?thesis using assms by (simp add: list_update_beyond)
qed

lemma closed_from_append:
  assumes "closed_from n K h" "fresh_obj n K obj"
  shows "closed_from n K (h @ [obj])"
  using assms by (auto simp: closed_from_def nth_append less_Suc_eq)

lemma take_update_above: "n \<le> a \<Longrightarrow> take n (h[a := obj]) = take n h"
  by simp

lemma copy_dict_items_ok:
  assumes "copy_ok n copy"
  shows "copy_dict_items copy kvs y h memo = (ok, h', memo') \<Longrightarrow>
         n \<le> y \<Longrightarrow> y < length h \<Longrightarrow> memo_ok n memo \<Longrightarrow> closed_from n {} h \<Longrightarrow>
         take n h' = take n h \<and> length h \<le> length h' \<and> memo_ok n memo' \<and> closed_from n {} h'"
proof (induction kvs arbitrary: h memo)
  case Nil
  then show ?case by simp
next
  case (Cons kv kvs)
  obtain k v where kv: "kv = (k, v)" by (cases kv)
  obtain r h1 memo1 where c: "copy v h memo = (r, h1, memo1)" by (cases "copy v h memo")
  have ny: "n \<le> length h" using Cons.prems(2,3) by simp
  from assms c ny Cons.prems(4,5)
  have s1: "take n h1 = take n h" "length h \<le> length h1" "memo_ok n memo1" "closed_from n {} h1"
    and fr: "\<forall>v'. r = Some v' \<longrightarrow> fresh n v'"
    unfolding copy_ok_def by blast+
  show ?case
  proof (cases r)
    case None
    then show ?thesis using Cons.prems(1) c kv s1 by simp
  next
    case (Some v')
    let ?h2 = "case h1 ! y of HDict items \<Rightarrow> h1[y := HDict (dict_set items k v')] | HList items \<Rightarrow> h1"
    have rec: "copy_dict_items copy kvs y ?h2 memo1 = (ok, h', memo')"
      using Cons.prems(1) c kv Some by simp
    have y1: "y < length h1" using Cons.prems(3) s1(2) by simp
    have fo: "fresh_obj n {} (h1 ! y)"
      using s1(4) Cons.prems(2) y1 by (simp add: closed_from_def)
    have fv: "fresh n v'" using fr Some by simp
    have len2: "length ?h2 = length h1" by (simp split: hobj.splits)
    have take2: "take n ?h2 = take n h1" using Cons.prems(2) by (simp split: hobj.splits)
    have cl2: "closed_from n {} ?h2"
    proof (cases "h1 ! y")
      case (HDict items)
      have "fresh_obj n {} (HDict (dict_set items k v'))"
        using fo fv HDict by (auto simp: fresh_obj_def dest!: dict_set_entries)
      then show ?thesis using HDict s1(4) by (simp add: closed_from_update)
    next
      case (HList items)
      then show ?thesis using s1(4) by simp
    qed
    from Cons.IH [OF rec Cons.prems(2) _ s1(3) cl2] y1 len2
    have "take n h' = take n ?h2 \<and> length ?h2 \<le> length h' \<and> memo_ok n memo' \<and> closed_from n {} h'"
      by simp
    then show ?thesis using take2 s1(1,2) len2 by simp
  qed
qed

lemma copy_list_items_ok:
  assumes "copy_ok n copy"
  shows "copy_list_items copy vs y h memo = (ok, h', memo') \<Longrightarrow>
         n \<le> y \<Longrightarrow> y < length h \<Longrightarrow> memo_ok n memo \<Longrightarrow> closed_from n {} h \<Longrightarrow>
         take n h' = take n h \<and> length h \<le> length h' \<and> memo_ok n memo' \<and> closed_from n {} h'"
proof (induction vs arbitrary: h memo)
  case Nil
  then show ?case by simp
next
  case (Cons v vs)
  obtain r h1 memo1 where c: "copy v h memo = (r, h1, memo1)" by (cases "copy v h memo")
  have ny: "n \<le> length h" using Cons.prems(2,3) by simp
  from assms c ny Cons.prems(4,5)
  have s1: "take n h1 = take n h" "length h \<le> length h1" "memo_ok n memo1" "closed_from n {} h1"
    and fr: "\<forall>v'. r = Some v' \<longrightarrow> fresh n v'"
    unfolding copy_ok_def by blast+
  show ?case
  proof (cases r)
    case None
    then show ?thesis using Cons.prems(1) c s1 by simp
  next
    case (Some v')
    let ?h2 = "case h1 ! y of HList items \<Rightarrow> h1[y := HList (items @ [v'])] | HDict items \<Rightarrow> h1"
    have rec: "copy_list_items copy vs y ?h2 memo1 = (ok, h', memo')"
      using Cons.prems(1) c Some by simp
    have y1: "y < length h1" using Cons.prems(3) s1(2) by simp
    have fo: "fresh_obj n {} (h1 ! y)"
      using s1(4) Cons.prems(2) y1 by (simp add: closed_from_def)
    have fv: "fresh n v'" using fr Some by simp
    have len2: "length ?h2 = length h1" by (simp split: hobj.splits)
    have take2: "take n ?h2 = take n h1" using Cons.prems(2) by (simp split: hobj.splits)
    have cl2: "closed_from n {} ?h2"
    proof (cases "h1 ! y")
      case (HList items)
      have "fresh_obj n {} (HList (items @ [v']))"
        using fo fv HList by (auto simp: fresh_obj_def)
      then show ?thesis using HList s1(4) by (simp add: closed_from_update)
    next
      case (HDict items)
      then show ?thesis using s1(4) by simp
    qed
    from Cons.IH [OF rec Cons.prems(2) _ s1(3) cl2] y1 len2
    have "take n h' = take n ?h2 \<and> length ?h2 \<le> length h' \<and> memo_ok n memo' \<and> closed_from n {} h'"
      by simp
    then show ?thesis using take2 s1(1,2) len2 by simp
  qed
qed

lemma memo_ok_lookup: "memo_ok n memo \<Longrightarrow> map_of memo a = Some y \<Longrightarrow> n \<le> y"
  by (auto simp: memo_ok_def dest!: map_of_SomeD)

lemma copy_object_ok:
  assumes "copy_ok n copy" "copy_object copy a h memo = (r, h', memo')"
    "n \<le> length h" "memo_ok n memo" "closed_from n {} h"
  shows "take n h' = take n h \<and> length h \<le> length h' \<and> memo_ok n memo' \<and> closed_from n {} h' \<and>
         (\<forall>v. r = Some v \<longrightarrow> fresh n v)"
proof (cases "map_of memo a")
  case (Some y)
  then show ?thesis using assms memo_ok_lookup [OF assms(4) Some]
    by (auto simp: copy_object_def)
next
  case None
  show ?thesis
  proof (cases "a < length h")
    case False
    then show ?thesis using assms None by (auto simp: copy_object_def)
  next
    case True
    let ?y = "length h"
    let ?memo1 = "(a, ?y) # memo"
    have m1: "memo_ok n ?memo1" using assms(3,4) by (simp add: memo_ok_def)
    show ?thesis
    proof (cases "h ! a")
      case (HDict kvs)
      let ?h1 = "h @ [HDict []]"
      obtain ok h2 memo2 where c: "copy_dict_items copy kvs ?y ?h1 ?memo1 = (ok, h2, memo2)"
        by (cases "copy_dict_items copy kvs ?y ?h1 ?memo1")
      have cl1: "closed_from n {} ?h1"
        using assms(5) by (rule closed_from_append) (simp add: fresh_obj_def)
      have "take n h2 = take n ?h1 \<and> length ?h1 \<le> length h2 \<and> memo_ok n memo2 \<and> closed_from n {} h2"
        using copy_dict_items_ok [OF assms(1) c assms(3) _ m1 cl1] by simp
      moreover have "r = (if ok then Some (HRef ?y) else None)" "h' = h2" "memo' = memo2"
        using assms(2) None True HDict c by (simp_all add: copy_object_def)
      ultimately show ?thesis using assms(3) by auto
    next
      case (HList xs)
      let ?h1 = "h @ [HList []]"
      obtain ok h2 memo2 where c: "copy_list_items copy xs ?y ?h1 ?memo1 = (ok, h2, memo2)"
        by (cases "copy_list_items copy xs ?y ?h1 ?memo1")
      have cl1: "closed_from n {} ?h1"
        using assms(5) by (rule closed_from_append) (simp add: fresh_obj_def)
      have "take n h2 = take n ?h1 \<and> length ?h1 \<le> length h2 \<and> memo_ok n memo2 \<and> closed_from n {} h2"
        using copy_list_items_ok [OF assms(1) c assms(3) _ m1 cl1] by simp
      moreover have "r = (if ok then Some (HRef ?y) else None)" "h' = h2" "memo' = memo2"
        using assms(2) None True HList c by (simp_all add: copy_object_def)
      ultimately show ?thesis using assms(3) by auto
    qed
  qed
qed

lemma deepcopy_ok: "copy_ok n (deepcopy fuel)"
proof (induction fuel)
  case 0
  then show ?case by (simp add: copy_ok_def)
next
  case (Suc fuel)
  show ?case
    unfolding copy_ok_def
  proof (intro allI impI, elim conjE)
    fix x h memo r h' memo'
    assume d: "deepcopy (Suc fuel) x h memo = (r, h', memo')"
      and pre: "n \<le> length h" "memo_ok n memo" "closed_from n {} h"
    show "take n h' = take n h \<and> length h \<le> length h' \<and> memo_ok n memo' \<and> closed_from n {} h' \<and>
          (\<forall>v. r = Some v \<longrightarrow> fresh n v)"
    proof (cases x)
      case (HRef a)
      then have "copy_object (deepcopy fuel) a h memo = (r, h', memo')" using d by simp
      from copy_object_ok [OF Suc this pre] show ?thesis .
    qed (use d pre in auto)
  qed
qed

lemma deepcopy_frame:
  assumes "deepcopy fuel x h [] = (r, h', memo')"
  shows "take (length h) h' = h \<and> closed_from (length h) {} h' \<and> (\<forall>v. r = Some v \<longrightarrow> fresh (length h) v)"
proof -
  have "closed_from (length h) {} h" by (auto simp: closed_from_def)
  moreover have "memo_ok (length h) []" by (simp add: memo_ok_def)
  ultimately show ?thesis
    using deepcopy_ok [of "length h" fuel] assms unfolding copy_ok_def
    by (metis order_refl take_all)
qed

lemma h_getitem_fresh:
  assumes "closed_from n K h" "fresh n x" "k \<notin> K" "h_getitem h x k = Inr y"
  shows "fresh n y"
proof -
  from assms(4) obtain a kvs where x: "x = HRef a" "a < length h" "h ! a = HDict kvs" "map_of kvs k = Some y"
    by (auto simp: h_getitem_def split: hval.splits if_splits hobj.splits option.splits)
  then have "n \<le> a" using assms(2) by simp
  then have "fresh_obj n K (HDict kvs)" using assms(1) x by (auto simp: closed_from_def)
  moreover have "(k, y) \<in> set kvs" using x(4) by (rule map_of_SomeD)
  ultimately show ?thesis using assms(3) by (auto simp: fresh_obj_def)
qed

lemma h_path_fresh:
  "closed_from n K h \<Longrightarrow> fresh n x \<Longrightarrow> set ks \<inter> K = {} \<Longrightarrow> h_path h x ks = Inr y \<Longrightarrow> fresh n y"
proof (induction ks arbitrary: x)
  case Nil
  then show ?case by simp
next
  case (Cons k ks)
  from Cons.prems(4) obtain z where z: "h_getitem h x k = Inr z" "h_path h z ks = Inr y"
    by (auto simp: bindE_eq_Inr)
  have "fresh n z" using h_getitem_fresh [OF Cons.prems(1,2) _ z(1)] Cons.prems(3) by auto
  then show ?case using Cons.IH [OF Cons.prems(1) _ _ z(2)] Cons.prems(3) by auto
qed

lemma h_setitem_frame:
  assumes "closed_from n K h" "fresh n x" "h_setitem h x k v = Inr h'"
  shows "take n h' = take n h \<and> closed_from n (insert k K) h'"
proof -
  from assms(3) obtain a kvs where x: "x = HRef a" "a < length h" "h ! a = HDict kvs"
      "h' = h[a := HDict (dict_set kvs k v)]"
    by (auto simp: h_setitem_def split: hval.splits if_splits hobj.splits)
  have na: "n \<le> a" using assms(2) x(1) by simp
  then have "fresh_obj n K (HDict kvs)" using assms(1) x by (auto simp: closed_from_def)
  then have "fresh_obj n (insert k K) (HDict (dict_set kvs k v))"
    by (auto simp: fresh_obj_def dest!: dict_set_entries)
  moreover have "closed_from n (insert k K) h"
    using assms(1) by (rule closed_from_mono) auto
  ultimately show ?thesis using x(4) na by (simp add: closed_from_update)
qed

lemma modify_workflow_frame:
  "take (length h) (snd (modify_workflow_for_kontext fuel h workflow_data prompt image_name)) = h"
proof -
  let ?n = "length h"
  obtain r h1 memo where d: "deepcopy fuel workflow_data h [] = (r, h1, memo)"
    by (cases "deepcopy fuel workflow_data h []")
  from deepcopy_frame [OF d]
  have f1: "take ?n h1 = h" "closed_from ?n {} h1" "\<forall>v. r = Some v \<longrightarrow> fresh ?n v" by auto
  show ?thesis
  proof (cases r)
    case None
    then show ?thesis using d f1 by (simp add: modify_workflow_for_kontext_def)
  next
    case (Some mw)
    then have fm: "fresh ?n mw" using f1 by simp
    let ?p1 = "h_path h1 mw [''batch'', ''graph'', ''nodes'', ''positive_prompt:0oQdkhpu9K'']"
    show ?thesis
    proof (cases ?p1)
      case (Inl e)
      then show ?thesis using d Some f1 by (simp add: modify_workflow_for_kontext_def)
    next
      case (Inr prompt_node)
      have fp: "fresh ?n prompt_node"
        using h_path_fresh [OF f1(2) fm _ Inr] by simp
      show ?thesis
      proof (cases "h_setitem h1 prompt_node ''value'' prompt")
        case (Inl e)
        then show ?thesis using d Some f1 \<open>?p1 = Inr prompt_node\<close>
          by (simp add: modify_workflow_for_kontext_def)
      next
        case s1: (Inr h2)
        from h_setitem_frame [OF f1(2) fp s1]
        have f2: "take ?n h2 = take ?n h1" "closed_from ?n {''value''} h2" by auto
        let ?p2 = "h_path h2 mw [''batch'', ''graph'', ''nodes'', ''flux_kontext:MsQ9ynwazR'', ''image'']"
        show ?thesis
        proof (cases ?p2)
          case (Inl e)
          then show ?thesis using d Some f1 f2 \<open>?p1 = Inr prompt_node\<close> s1
            by (simp add: modify_workflow_for_kontext_def)
        next
          case p2: (Inr image_dict)
          have fi: "fresh ?n image_dict"
            using h_path_fresh [OF f2(2) fm _ p2] by simp
          show ?thesis
          proof (cases "h_setitem h2 image_dict ''image_name'' image_name")
            case (Inl e)
            then show ?thesis using d Some f1 f2 \<open>?p1 = Inr prompt_node\<close> s1 p2
              by (simp add: modify_workflow_for_kontext_def)
          next
            case s2: (Inr h3)
            from h_setitem_frame [OF f2(2) fi s2]
            have "take ?n h3 = take ?n h2" by simp
            then show ?thesis using d Some f1 f2 \<open>?p1 = Inr prompt_node\<close> s1 p2 s2
              by (simp add: modify_workflow_for_kontext_def)
          qed
        qed
      qed
    qed
  qed
qed

lemma find_patch_points_fresh:
  assumes "closed_from n {} h" "fresh n mw" "find_patch_points h mw = Inr (Some (nim, load))"
  shows "fresh n nim \<and> fresh n load"
proof -
  from assms(3) obtain found where
      r: "(case found of (nimflux_node_id, loadimage_node_id) \<Rightarrow>
            case nimflux_node_id of
              None \<Rightarrow> Inr None
            | Some nim_id \<Rightarrow>
                if nim_id = [] then Inr None
                else
                  (case loadimage_node_id of
                     None \<Rightarrow> Inr None
                   | Some load_id \<Rightarrow>
                       if load_id = [] then Inr None
                       else
                         bindE (h_getitem h mw nim_id) (\<lambda>nimflux_node.
                         bindE (h_getitem h mw load_id) (\<lambda>loadimage_node.
                         bindE (h_contains h ''inputs'' nimflux_node) (\<lambda>has_inputs.
                           if has_inputs then Inr (Some (nimflux_node, loadimage_node))
                           else Inr None))))) = Inr (Some (nim, load))"
    unfolding find_patch_points_def bindE_eq_Inr by blast
  obtain a b where found: "found = (a, b)" by (cases found)
  from r found obtain nim_id where a: "a = Some nim_id" "nim_id \<noteq> []"
    by (cases a) (auto split: if_splits)
  from r found a obtain load_id where b: "b = Some load_id" "load_id \<noteq> []"
    by (cases b) (auto split: if_splits)
  from r found a b have
      "bindE (h_getitem h mw nim_id) (\<lambda>nimflux_node.
       bindE (h_getitem h mw load_id) (\<lambda>loadimage_node.
       bindE (h_contains h ''inputs'' nimflux_node) (\<lambda>has_inputs.
         if has_inputs then Inr (Some (nimflux_node, loadimage_node))
         else Inr None))) = Inr (Some (nim, load))"
    by simp
  then have g: "h_getitem h mw nim_id = Inr nim" "h_getitem h mw load_id = Inr load"
    by (auto simp: bindE_eq_Inr split: if_splits)
  show ?thesis
    using h_getitem_fresh [OF assms(1,2) _ g(1)] h_getitem_fresh [OF assms(1,2) _ g(2)] by simp
qed

lemma patch_input_frame:
  assumes "closed_from n K h" "fresh n node" "''inputs'' \<notin> K" "patch_input h node k v = Inr (Some h')"
  shows "take n h' = take n h \<and> closed_from n (insert k K) h'"
proof -
  from assms(4) obtain inputs where
      g: "h_getitem h node ''inputs'' = Inr inputs" "h_setitem h inputs k v = Inr h'"
    by (auto simp: patch_input_def bindE_eq_Inr split: if_splits)
  have "fresh n inputs" using h_getitem_fresh [OF assms(1,2,3) g(1)] .
  from h_setitem_frame [OF assms(1) this g(2)] show ?thesis .
qed

lemma patch_comfyui_workflow_frame:
  assumes "closed_from n {} h" "fresh n mw"
  shows "take n (snd (patch_comfyui_workflow h mw prompt image_name steps)) = take n h"
proof (cases "find_patch_points h mw")
  case (Inl e)
  then show ?thesis by (simp add: patch_comfyui_workflow_def)
next
  case (Inr found)
  show ?thesis
  proof (cases found)
    case None
    then show ?thesis using Inr by (simp add: patch_comfyui_workflow_def)
  next
    case (Some nodes)
    obtain nim load where nodes: "nodes = (nim, load)" by (cases nodes)
    have fp: "find_patch_points h mw = Inr (Some (nim, load))" using Inr Some nodes by simp
    from find_patch_points_fresh [OF assms fp] have fr: "fresh n nim" "fresh n load" by auto
    show ?thesis
    proof (cases "patch_input h nim ''prompt'' prompt")
      case (Inl e)
      then show ?thesis using fp by (simp add: patch_comfyui_workflow_def)
    next
      case p1: (Inr r1)
      show ?thesis
      proof (cases r1)
        case None
        then show ?thesis using fp p1 by (simp add: patch_comfyui_workflow_def)
      next
        case s1: (Some h1)
        from patch_input_frame [OF assms(1) fr(1) _ p1 [unfolded s1]]
        have f1: "take n h1 = take n h" "closed_from n {''prompt''} h1" by auto
        show ?thesis
        proof (cases "patch_input h1 nim ''steps'' steps")
          case (Inl e)
          then show ?thesis using fp p1 s1 f1 by (simp add: patch_comfyui_workflow_def)
        next
          case p2: (Inr r2)
          show ?thesis
          proof (cases r2)
            case None
            then show ?thesis using fp p1 s1 f1 p2 by (simp add: patch_comfyui_workflow_def)
          next
            case s2: (Some h2)
            from patch_input_frame [OF f1(2) fr(1) _ p2 [unfolded s2]]
            have f2: "take n h2 = take n h1" "closed_from n {''steps'', ''prompt''} h2" by auto
            show ?thesis
            proof (cases "patch_input h2 load ''image'' image_name")
              case (Inl e)
              then show ?thesis using fp p1 s1 f1 p2 s2 f2 by (simp add: patch_comfyui_workflow_def)
            next
              case p3: (Inr r3)
              show ?thesis
              proof (cases r3)
                case None
                then show ?thesis using fp p1 s1 f1 p2 s2 f2 p3 by (simp add: patch_comfyui_workflow_def)
              next
                case s3: (Some h3)
                from patch_input_frame [OF f2(2) fr(2) _ p3 [unfolded s3]]
                have "take n h3 = take n h2" by simp
                then show ?thesis using fp p1 s1 f1 p2 s2 f2 p3 s3
                  by (simp add: patch_comfyui_workflow_def)
              qed
            qed
          qed
        qed
      qed
    qed
  qed
qed

lemma modify_comfyui_workflow_frame:
  "take (length h) (snd (modify_comfyui_workflow_for_kontext fuel h workflow_data prompt image_name steps)) = h"
proof -
  let ?n = "length h"
  obtain r h1 memo where d: "deepcopy fuel workflow_data h [] = (r, h1, memo)"
    by (cases "deepcopy fuel workflow_data h []")
  from deepcopy_frame [OF d]
  have f1: "take ?n h1 = h" "closed_from ?n {} h1" "\<forall>v. r = Some v \<longrightarrow> fresh ?n v" by auto
  show ?thesis
  proof (cases r)
    case None
    then show ?thesis using d f1 by (simp add: modify_comfyui_workflow_for_kontext_def)
  next
    case (Some mw)
    then have fm: "fresh ?n mw" using f1 by simp
    obtain res h2 where p: "patch_comfyui_workflow h1 mw prompt image_name steps = (res, h2)"
      by (cases "patch_comfyui_workflow h1 mw prompt image_name steps")
    have "take ?n h2 = take ?n h1"
      using patch_comfyui_workflow_frame [OF f1(2) fm, of prompt image_name steps] p by simp
    then show ?thesis using d Some p f1
      by (cases res) (simp_all add: modify_comfyui_workflow_for_kontext_def)
  qed
qed

text \<open>
  Claim C8. For every store, every workflow (in particular the module-level templates),
  every prompt, image name and step count, and every bound given to the copy: after
  \<^verbatim>\<open>modify_workflow_for_kontext\<close> and after
  \<^verbatim>\<open>modify_comfyui_workflow_for_kontext\<close> every object that existed before the call
  is what it was, whether the call returns the patched copy, returns None after an
  exception, or the copy was cut off. The patches go to objects created by the call.
\<close>

theorem modify_leaves_template_unchanged:
  "take (length h) (snd (modify_workflow_for_kontext fuel h workflow_data prompt image_name)) = h \<and>
   take (length h)
     (snd (modify_comfyui_workflow_for_kontext fuel h workflow_data prompt image_name steps)) = h"
  using modify_workflow_frame modify_comfyui_workflow_frame by simp

text \<open>
  A run on the sample workflow: the call returns a new dict (address 6), the template
  reads back as it was, and the copy holds the new prompt, step count and image name.
\<close>

lemma template_example:
  "(case alloc demo_workflow [] of
      (template, h) \<Rightarrow>
        (case modify_comfyui_workflow_for_kontext 5 h template (HStr ''snow'') (HStr ''shot.png'') (HInt 30) of
           (r, h') \<Rightarrow>
             (r, length h, length h',
              to_json 5 h' template,
              bindE (h_path h' (HRef 6) [''21'', ''inputs'', ''prompt'']) Inr,
              bindE (h_path h' (HRef 6) [''21'', ''inputs'', ''steps'']) Inr,
              bindE (h_path h' (HRef 6) [''11'', ''inputs'', ''image'']) Inr))) =
   (Returned (HRef 6), 6, 12, Some demo_workflow, Inr (HStr ''snow''), Inr (HInt 30), Inr (HStr ''shot.png''))"
  by code_simp

section \<open>The image normalizer\<close>

text \<open>
  The crop rectangle has non-negative origins and lies in the scaled image; the cropped
  image has the target width exactly when the scaled image is at least that wide, and
  likewise for the height.
\<close>

lemma crop_box_bounds:
  assumes "0 < new_width" "0 < new_height" "0 < target_width" "0 < target_height"
    and "crop_box new_width new_height target_width target_height = (left, upper, right, lower)"
  shows "0 \<le> left \<and> 0 \<le> upper \<and> left < right \<and> upper < lower \<and>
         right \<le> new_width \<and> lower \<le> new_height \<and>
         right - left = min new_width target_width \<and> lower - upper = min new_height target_height"
  using assms by (auto simp: crop_box_def Let_def min_def max_def)

lemma quotient_1392_1179: "int_truediv 1392 1179 = Inr (1329306760241673 / 1125899906842624)"
  by code_simp

lemma quotient_752_2556: "int_truediv 752 2556 = Inr (1325002707270193 / 4503599627370496)"
  by code_simp

lemma product_1179: "int_times_float 1179 (1329306760241673 / 1125899906842624) = 6122080743456767 / 4398046511104"
  by code_simp

lemma product_2556: "int_times_float 2556 (1329306760241673 / 1125899906842624) = 6636148592143977 / 2199023255552"
  by code_simp

lemma normalize_1179_2556:
  "normalize (1179, 2556) 1392 752 =
     Inr \<lparr> scaled_size = (1391, 3017), box = (0, 1132, 1391, 1884), output_size = (1391, 752) \<rparr>"
proof -
  have m: "max (1329306760241673 / 1125899906842624 :: rat) (1325002707270193 / 4503599627370496) =
      1329306760241673 / 1125899906842624"
    by simp
  have t1: "trunc (6122080743456767 / 4398046511104) = 1391"
    by code_simp
  have t2: "trunc (6636148592143977 / 2199023255552) = 3017"
    by code_simp
  show ?thesis
    by (simp add: normalize_def quotient_1392_1179 quotient_752_2556 m product_1179 product_2556
        t1 t2 crop_box_def Let_def del: max.absorb_iff1 max.absorb_iff2)
qed

text \<open>
  Claim C5, at a source image of 1179 by 2556 pixels and the default target of 1392 by
  752: the scale is the double nearest to 1392/1179, the product of 1179 and the scale
  rounds to a double just below 1392, and \<^verbatim>\<open>int\<close> truncates it to 1391. Both functions
  crop the rectangle (0, 1132, 1391, 1884) and produce an image of 1391 by 752 pixels,
  one column short of the target.
\<close>

theorem normalize_underfills_target:
  "prepare_image_for_kontext (1179, 2556) 1392 752 =
     Some \<lparr> scaled_size = (1391, 3017), box = (0, 1132, 1391, 1884), output_size = (1391, 752) \<rparr> \<and>
   prepare_image_for_comfyui (1179, 2556) 1392 752 =
     Some \<lparr> scaled_size = (1391, 3017), box = (0, 1132, 1391, 1884), output_size = (1391, 752) \<rparr>"
  by (simp add: prepare_image_for_kontext_def prepare_image_for_comfyui_def normalize_1179_2556)

end
